theory Spec2Isabelle
  imports Main
begin

section \<open>Enumerations of the schema\<close>

text \<open>
  The two enumerated types of \<^verbatim>\<open>prisma/migrations/20250821001515_init/migration.sql\<close>
  (\<^verbatim>\<open>CREATE TYPE "Role"\<close>, \<^verbatim>\<open>CREATE TYPE "AppState"\<close>), in the order of the schema.
\<close>

datatype Role = ADMIN | NATIONAL_SECRETARIAT | REGIONAL_SECRETARIAT | COMPANY_REP | MEMBER

datatype AppState =
  DRAFT | SUBMITTED | REGION_REVIEW | REQUESTED_CHANGES | NATIONAL_REVIEW | APPROVED | REJECTED

section \<open>The transition table: \<^verbatim>\<open>applications/fsm.ts\<close>\<close>

datatype Transition = submit | request_info | region_approve | national_approve | reject

text \<open>\<^verbatim>\<open>const allowed: Record<AppState, Transition[]>\<close>, one equation per key.\<close>

fun allowed :: "AppState \<Rightarrow> Transition list" where
  "allowed DRAFT = [submit]"
| "allowed SUBMITTED = [request_info, region_approve, reject]"
| "allowed REGION_REVIEW = [request_info, region_approve, reject]"
| "allowed REQUESTED_CHANGES = [submit]"
| "allowed NATIONAL_REVIEW = [national_approve, reject]"
| "allowed APPROVED = []"
| "allowed REJECTED = []"

text \<open>\<^verbatim>\<open>can = (state, action) => allowed[state].includes(action)\<close>\<close>

definition can :: "AppState \<Rightarrow> Transition \<Rightarrow> bool" where
  "can s a = (a \<in> set (allowed s))"

section \<open>Rows, store and environment\<close>

text \<open>
  Timestamps are milliseconds as natural numbers, a nullable column is an \<open>option\<close>,
  the JSON column \<^verbatim>\<open>form\<close> is carried as text and never read.
  The row of table \<^verbatim>\<open>MembershipApplication\<close>. The primary key \<^verbatim>\<open>id\<close> is the
  key under which the store holds the row and is not repeated in the record: the row
  found under key \<open>i\<close> is the row whose \<^verbatim>\<open>id\<close> is \<open>i\<close>.
\<close>

type_synonym json = string

record MembershipApplication =
  companyId :: string
  submittedById :: string
  regionId :: string
  state :: AppState
  reasonRejected :: "string option"
  form :: json
  submittedAt :: "nat option"
  decidedAt :: "nat option"
  createdAt :: nat

text \<open>
  \<^verbatim>\<open>req.body.reasonRejected\<close> is passed on as it arrives, without validation, and ends
  in the \<^verbatim>\<open>data\<close> of the client's \<^verbatim>\<open>update\<close>, for the nullable text column
  \<^verbatim>\<open>reasonRejected\<close>. The client takes two kinds of value for such a column: a
  string, and the update operation \<^verbatim>\<open>{ set: v }\<close> with \<open>v\<close> a string or \<^verbatim>\<open>null\<close>.
  These are the values of \<open>reason_input\<close>. Any other value (a number, a boolean, an
  array, another object) is refused by the client, and the \<^verbatim>\<open>update\<close> call throws:
  a request with such a value behaves as one whose \<^verbatim>\<open>update\<close> call throws, which is
  \<open>throws e UpdateApplication\<close> of the environment below.
\<close>

datatype reason_input = Reason_text string | Reason_set "string option"

text \<open>What the client writes to the column for a value it takes.\<close>

fun written_column :: "reason_input \<Rightarrow> string option" where
  "written_column (Reason_text s) = Some s"
| "written_column (Reason_set v) = v"

text \<open>
  The object passed as \<^verbatim>\<open>data\<close> to \<^verbatim>\<open>transition\<close> and stored as the event's
  \<^verbatim>\<open>meta\<close>: \<^verbatim>\<open>{}\<close>, \<^verbatim>\<open>{ note }\<close> or \<^verbatim>\<open>{ reasonRejected }\<close>. A field read from
  the request body is \<open>None\<close> when the body has no such field or has \<^verbatim>\<open>null\<close> there.
  The note is any JSON value; it is stored in \<^verbatim>\<open>meta\<close> and never read, and is carried
  as text.
\<close>

datatype data =
  Data_empty | Data_note "json option" | Data_reasonRejected "reason_input option"

text \<open>The property read \<^verbatim>\<open>data.reasonRejected\<close>: undefined unless the object has the field.\<close>

fun data_reasonRejected :: "data \<Rightarrow> reason_input option" where
  "data_reasonRejected (Data_reasonRejected r) = r"
| "data_reasonRejected _ = None"

text \<open>
  The row of table \<^verbatim>\<open>ApplicationEvent\<close>. The generated key of an event is left
  out: the position in the list of events stands for it.
\<close>

record ApplicationEvent =
  applicationId :: string
  action :: string
  actorId :: string
  at :: nat
  meta :: data

text \<open>The action name written to the \<^verbatim>\<open>action\<close> column (a text column).\<close>

fun action_name :: "Transition \<Rightarrow> string" where
  "action_name submit = ''submit''"
| "action_name request_info = ''request_info''"
| "action_name region_approve = ''region_approve''"
| "action_name national_approve = ''national_approve''"
| "action_name reject = ''reject''"

text \<open>
  The tables the application routes touch: applications by primary key, the events in
  the order they were inserted, and for each company the nullable \<^verbatim>\<open>ownerUserId\<close>.
\<close>

record store =
  applications :: "string \<rightharpoonup> MembershipApplication"
  events :: "ApplicationEvent list"
  companies :: "string \<rightharpoonup> string option"

text \<open>
  What a request reads from outside the store: the clock of the server
  (\<^verbatim>\<open>new Date()\<close>), the clock of the database (\<^verbatim>\<open>CURRENT_TIMESTAMP\<close>), the key
  generated for a new application, and for each database call whether it throws for a
  reason of its own (connection lost, constraint of another table), with the message of
  the thrown error.
\<close>

datatype dbop = FindApplication | UpdateApplication | CreateEvent | CreateApplication | FindCompany

record env =
  now :: nat
  dbNow :: nat
  newId :: string
  throws :: "dbop \<Rightarrow> string option"

text \<open>
  A thrown value: \<^verbatim>\<open>new Error(message)\<close> of the route code, or an error of the
  database client.
\<close>

datatype error = Error string | PrismaError string

fun message :: "error \<Rightarrow> string" where
  "message (Error m) = m"
| "message (PrismaError m) = m"

section \<open>Database calls\<close>

text \<open>\<^verbatim>\<open>membershipApplication.findUnique({ where: { id } })\<close>\<close>

definition findUnique :: "env \<Rightarrow> store \<Rightarrow> string \<Rightarrow> error + MembershipApplication option" where
  "findUnique e tx i =
     (case throws e FindApplication of
        Some m \<Rightarrow> Inl (PrismaError m)
      | None \<Rightarrow> Inr (applications tx i))"

text \<open>
  \<^verbatim>\<open>membershipApplication.update({ where: { id }, data })\<close>: the columns named in
  \<^verbatim>\<open>data\<close> are overwritten (the function \<open>f\<close>), the updated row is returned; a missing
  row is an error of the client.
\<close>

definition update_application ::
  "env \<Rightarrow> store \<Rightarrow> string \<Rightarrow> (MembershipApplication \<Rightarrow> MembershipApplication)
     \<Rightarrow> error + (MembershipApplication \<times> store)" where
  "update_application e tx i f =
     (case throws e UpdateApplication of
        Some m \<Rightarrow> Inl (PrismaError m)
      | None \<Rightarrow>
          (case applications tx i of
             None \<Rightarrow> Inl (PrismaError ''P2025'')
           | Some row \<Rightarrow>
               Inr (f row, tx\<lparr>applications := (applications tx)(i \<mapsto> f row)\<rparr>)))"

text \<open>\<^verbatim>\<open>applicationEvent.create({ data })\<close>; the column \<^verbatim>\<open>at\<close> takes its default.\<close>

definition create_event ::
  "env \<Rightarrow> store \<Rightarrow> string \<Rightarrow> string \<Rightarrow> string \<Rightarrow> data \<Rightarrow> error + store" where
  "create_event e tx i act actor m =
     (case throws e CreateEvent of
        Some msg \<Rightarrow> Inl (PrismaError msg)
      | None \<Rightarrow>
          Inr (tx\<lparr>events := events tx @
                 [\<lparr>applicationId = i, action = act, actorId = actor, at = dbNow e, meta = m\<rparr>]\<rparr>))"

text \<open>
  \<^verbatim>\<open>membershipApplication.create({ data })\<close>: the columns not given take their
  defaults (null, and the database clock for \<^verbatim>\<open>createdAt\<close>); the primary key rejects
  a key already present.
\<close>

definition create_application ::
  "env \<Rightarrow> store \<Rightarrow> string \<Rightarrow> string \<Rightarrow> string \<Rightarrow> json \<Rightarrow> AppState
     \<Rightarrow> error + (MembershipApplication \<times> store)" where
  "create_application e tx c u r f s =
     (case throws e CreateApplication of
        Some m \<Rightarrow> Inl (PrismaError m)
      | None \<Rightarrow>
          (case applications tx (newId e) of
             Some other \<Rightarrow> Inl (PrismaError ''P2002'')
           | None \<Rightarrow>
               (let row = \<lparr>companyId = c, submittedById = u, regionId = r,
                           state = s, reasonRejected = None, form = f, submittedAt = None,
                           decidedAt = None, createdAt = dbNow e\<rparr>
                in Inr (row, tx\<lparr>applications := (applications tx)(newId e \<mapsto> row)\<rparr>))))"

text \<open>\<^verbatim>\<open>company.findFirst({ where: { id, ownerUserId } })\<close>, as a truth value.\<close>

definition find_owned_company :: "env \<Rightarrow> store \<Rightarrow> string \<Rightarrow> string \<Rightarrow> error + bool" where
  "find_owned_company e tx c u =
     (case throws e FindCompany of
        Some m \<Rightarrow> Inl (PrismaError m)
      | None \<Rightarrow> Inr (companies tx c = Some (Some u)))"

text \<open>
  \<^verbatim>\<open>prisma.$transaction(async (tx) => ...)\<close>: the body works on the store it is
  given; when it throws, its writes are rolled back and the error is thrown on.
\<close>

definition transaction ::
  "(store \<Rightarrow> error + ('a \<times> store)) \<Rightarrow> store \<Rightarrow> (error + 'a) \<times> store" where
  "transaction body st =
     (case body st of
        Inl err \<Rightarrow> (Inl err, st)
      | Inr (r, st') \<Rightarrow> (Inr r, st'))"

section \<open>The helper \<^verbatim>\<open>transition\<close> of \<^verbatim>\<open>applications/routes.ts\<close>\<close>

text \<open>The local table \<^verbatim>\<open>nextState: Record<Transition, AppState>\<close>.\<close>

fun nextState :: "Transition \<Rightarrow> AppState" where
  "nextState submit = SUBMITTED"
| "nextState request_info = REQUESTED_CHANGES"
| "nextState region_approve = NATIONAL_REVIEW"
| "nextState national_approve = APPROVED"
| "nextState reject = REJECTED"

text \<open>
  The body of the transaction: find the row, check the table, update the three
  columns \<^verbatim>\<open>state\<close>, \<^verbatim>\<open>decidedAt\<close>, \<^verbatim>\<open>reasonRejected\<close>, insert the event.
\<close>

definition transition_body ::
  "env \<Rightarrow> string \<Rightarrow> string \<Rightarrow> Transition \<Rightarrow> data \<Rightarrow> store
     \<Rightarrow> error + (MembershipApplication \<times> store)" where
  "transition_body e i actor a d tx =
     (case findUnique e tx i of
        Inl err \<Rightarrow> Inl err
      | Inr None \<Rightarrow> Inl (Error ''Not found'')
      | Inr (Some app) \<Rightarrow>
          (if \<not> can (state app) a then Inl (Error ''Invalid transition'')
           else
             (let newState = nextState a in
              case update_application e tx i
                     (\<lambda>row. row\<lparr>state := newState,
                                decidedAt :=
                                  (if a \<in> set [national_approve, reject] then Some (now e)
                                   else decidedAt app),
                                reasonRejected :=
                                  (if a = reject
                                   then written_column
                                          (case data_reasonRejected d of
                                             Some v \<Rightarrow> v
                                           | None \<Rightarrow> Reason_text ''Not specified'')
                                   else reasonRejected app)\<rparr>) of
                Inl err \<Rightarrow> Inl err
              | Inr (ua, tx') \<Rightarrow>
                  (case create_event e tx' i (action_name a) actor d of
                     Inl err \<Rightarrow> Inl err
                   | Inr tx'' \<Rightarrow> Inr (ua, tx'')))))"

definition transition ::
  "env \<Rightarrow> string \<Rightarrow> string \<Rightarrow> Transition \<Rightarrow> data \<Rightarrow> store
     \<Rightarrow> (error + MembershipApplication) \<times> store" where
  "transition e i actor a d st = transaction (transition_body e i actor a d) st"

section \<open>Requests and responses\<close>

text \<open>
  \<^verbatim>\<open>req.user\<close> (\<^verbatim>\<open>AuthenticatedUser\<close> of \<^verbatim>\<open>common/middleware/auth.ts\<close>); its
  \<^verbatim>\<open>id\<close> and \<^verbatim>\<open>regionId\<close> are called \<open>userId\<close> and \<open>userRegionId\<close> here.
\<close>

record AuthenticatedUser =
  userId :: string
  email :: string
  username :: string
  role :: Role
  userRegionId :: "string option"

text \<open>
  A response: the status and the JSON body, which is the envelope of
  \<^verbatim>\<open>successResponse\<close>/\<^verbatim>\<open>errorResponse\<close> (\<^verbatim>\<open>common/http.ts\<close>), a bare
  \<^verbatim>\<open>{ message }\<close>, or a bare application row (its \<^verbatim>\<open>id\<close> and its other columns).
\<close>

datatype body =
  Json_envelope bool string "(string \<times> MembershipApplication) option"
| Json_message string
| Json_application string MembershipApplication

datatype response = Response (status: nat) (body: body)

definition successResponse :: "string \<times> MembershipApplication \<Rightarrow> string \<Rightarrow> nat \<Rightarrow> response" where
  "successResponse d m statusCode = Response statusCode (Json_envelope True m (Some d))"

definition errorResponse :: "string \<Rightarrow> nat \<Rightarrow> response" where
  "errorResponse m statusCode = Response statusCode (Json_envelope False m None)"

text \<open>
  How a route ends: a response was sent; the handler called \<^verbatim>\<open>next(error)\<close>; or the
  promise of an \<^verbatim>\<open>async\<close> handler was rejected with no response sent.
\<close>

datatype outcome = Sent response | Next error | Unhandled error

text \<open>
  \<^verbatim>\<open>requireRole(...allowedRoles)\<close> of \<^verbatim>\<open>common/middleware/auth\<close>, the one the
  routes import: \<open>None\<close> is \<^verbatim>\<open>next()\<close>.
\<close>

definition requireRole :: "Role list \<Rightarrow> AuthenticatedUser option \<Rightarrow> response option" where
  "requireRole allowedRoles user =
     (case user of
        None \<Rightarrow> Some (errorResponse ''Authentication required'' 401)
      | Some u \<Rightarrow>
          (if role u \<notin> set allowedRoles then Some (errorResponse ''Insufficient permissions'' 403)
           else None))"

text \<open>
  \<^verbatim>\<open>requireRole(...roles)\<close> of \<^verbatim>\<open>common/middleware/rbac.ts\<close>: the same two
  checks, answered with a bare \<^verbatim>\<open>{ message }\<close>.
\<close>

definition requireRole_rbac :: "Role list \<Rightarrow> AuthenticatedUser option \<Rightarrow> response option" where
  "requireRole_rbac roles user =
     (case user of
        None \<Rightarrow> Some (Response 401 (Json_message ''Unauthorized''))
      | Some u \<Rightarrow>
          (if role u \<notin> set roles then Some (Response 403 (Json_message ''Forbidden''))
           else None))"

section \<open>The routes of \<^verbatim>\<open>applications/routes.ts\<close>\<close>

text \<open>
  Each route takes \<^verbatim>\<open>req.user\<close> as it is when the role check runs (\<open>None\<close> when no
  middleware has set it), the parameters it reads from the request, and the store.
  Setting \<^verbatim>\<open>req.user\<close> is the work of \<^verbatim>\<open>authenticateToken\<close>; of the routes below
  only \<^verbatim>\<open>POST /\<close> names it in its own chain, the others rely on \<^verbatim>\<open>req.user\<close> being
  set before they run.
\<close>

text \<open>
  \<^verbatim>\<open>authenticateToken\<close>, by its result: the user it sets as \<^verbatim>\<open>req.user\<close> and lets
  through, or \<open>None\<close> for a request without a token, which it answers 401. (A token it
  cannot verify, or the token of an unknown or deactivated user, is answered 401 too,
  with a message of its own.)
\<close>

definition authenticateToken :: "AuthenticatedUser option \<Rightarrow> response option" where
  "authenticateToken user =
     (case user of
        None \<Rightarrow> Some (errorResponse ''Access token required'' 401)
      | Some u \<Rightarrow> None)"

text \<open>\<^verbatim>\<open>POST /\<close>: create a draft.\<close>

definition route_create ::
  "env \<Rightarrow> AuthenticatedUser option \<Rightarrow> string \<Rightarrow> string \<Rightarrow> json \<Rightarrow> store \<Rightarrow> outcome \<times> store" where
  "route_create e user c r f st =
     (case authenticateToken user of
        Some res \<Rightarrow> (Sent res, st)
      | None \<Rightarrow>
          (case requireRole [COMPANY_REP, ADMIN] user of
             Some res \<Rightarrow> (Sent res, st)
           | None \<Rightarrow>
               (case create_application e st c (userId (the user)) r f DRAFT of
                  Inl err \<Rightarrow> (Next err, st)
                | Inr (app, st') \<Rightarrow>
                    (Sent (successResponse (newId e, app)
                             ''Application draft created successfully'' 201),
                     st'))))"

text \<open>
  \<^verbatim>\<open>POST /:id/submit\<close>: the row is read and checked before the transaction, and the
  handler has no \<^verbatim>\<open>try\<close>: an error of a database call rejects its promise.
  \<^verbatim>\<open>app.id\<close> and \<^verbatim>\<open>ua.id\<close> are the key \<open>i\<close> the row was found under.
\<close>

definition submit_body ::
  "env \<Rightarrow> string \<Rightarrow> string \<Rightarrow> store \<Rightarrow> error + (MembershipApplication \<times> store)" where
  "submit_body e i actor tx =
     (case update_application e tx i
             (\<lambda>row. row\<lparr>state := SUBMITTED, submittedAt := Some (now e)\<rparr>) of
        Inl err \<Rightarrow> Inl err
      | Inr (ua, tx') \<Rightarrow>
          (case create_event e tx' i ''submit'' actor Data_empty of
             Inl err \<Rightarrow> Inl err
           | Inr tx'' \<Rightarrow> Inr (ua, tx'')))"

definition route_submit :: "env \<Rightarrow> AuthenticatedUser option \<Rightarrow> string \<Rightarrow> store \<Rightarrow> outcome \<times> store" where
  "route_submit e user i st =
     (case requireRole [COMPANY_REP, ADMIN] user of
        Some res \<Rightarrow> (Sent res, st)
      | None \<Rightarrow>
          (case findUnique e st i of
             Inl err \<Rightarrow> (Unhandled err, st)
           | Inr None \<Rightarrow> (Sent (Response 404 (Json_message ''Not found'')), st)
           | Inr (Some app) \<Rightarrow>
               (if \<not> can (state app) submit
                then (Sent (Response 409 (Json_message ''Invalid transition'')), st)
                else
                  (case transaction (submit_body e i (userId (the user))) st of
                     (Inl err, st') \<Rightarrow> (Unhandled err, st')
                   | (Inr updated, st') \<Rightarrow> (Sent (Response 200 (Json_application i updated)), st')))))"

text \<open>
  \<^verbatim>\<open>GET /:id\<close>; the relations included in the answer are left out of the body.
\<close>

definition route_get_by_id :: "env \<Rightarrow> AuthenticatedUser option \<Rightarrow> string \<Rightarrow> store \<Rightarrow> outcome \<times> store" where
  "route_get_by_id e user i st =
     (case requireRole [ADMIN, NATIONAL_SECRETARIAT, REGIONAL_SECRETARIAT, COMPANY_REP] user of
        Some res \<Rightarrow> (Sent res, st)
      | None \<Rightarrow>
          (case findUnique e st i of
             Inl err \<Rightarrow> (Unhandled err, st)
           | Inr None \<Rightarrow> (Sent (Response 404 (Json_message ''Not found'')), st)
           | Inr (Some app) \<Rightarrow>
               (if role (the user) = COMPANY_REP
                then
                  (case find_owned_company e st (companyId app) (userId (the user)) of
                     Inl err \<Rightarrow> (Unhandled err, st)
                   | Inr owns \<Rightarrow>
                       (if \<not> owns then (Sent (Response 403 (Json_message ''Forbidden'')), st)
                        else (Sent (Response 200 (Json_application i app)), st)))
                else (Sent (Response 200 (Json_application i app)), st))))"

text \<open>
  The four routes built on \<^verbatim>\<open>transition\<close> share one shape: the role check, then
  \<^verbatim>\<open>try { res.json(await transition(...)) } catch (e) { res.status(409).json({ message: e.message }) }\<close>.
\<close>

definition transition_route ::
  "Role list \<Rightarrow> env \<Rightarrow> AuthenticatedUser option \<Rightarrow> string \<Rightarrow> Transition \<Rightarrow> data \<Rightarrow> store
     \<Rightarrow> outcome \<times> store" where
  "transition_route roles e user i a d st =
     (case requireRole roles user of
        Some res \<Rightarrow> (Sent res, st)
      | None \<Rightarrow>
          (case transition e i (userId (the user)) a d st of
             (Inr ua, st') \<Rightarrow> (Sent (Response 200 (Json_application i ua)), st')
           | (Inl err, st') \<Rightarrow> (Sent (Response 409 (Json_message (message err))), st')))"

text \<open>\<^verbatim>\<open>POST /:id/request-info\<close>\<close>

definition route_request_info ::
  "env \<Rightarrow> AuthenticatedUser option \<Rightarrow> string \<Rightarrow> json option \<Rightarrow> store \<Rightarrow> outcome \<times> store" where
  "route_request_info e user i note st =
     transition_route [REGIONAL_SECRETARIAT, NATIONAL_SECRETARIAT, ADMIN] e user i
       request_info (Data_note note) st"

text \<open>\<^verbatim>\<open>POST /:id/region-approve\<close>; \<^verbatim>\<open>data\<close> takes its default \<^verbatim>\<open>{}\<close>.\<close>

definition route_region_approve ::
  "env \<Rightarrow> AuthenticatedUser option \<Rightarrow> string \<Rightarrow> store \<Rightarrow> outcome \<times> store" where
  "route_region_approve e user i st =
     transition_route [REGIONAL_SECRETARIAT, ADMIN] e user i region_approve Data_empty st"

text \<open>\<^verbatim>\<open>POST /:id/national-approve\<close>\<close>

definition route_national_approve ::
  "env \<Rightarrow> AuthenticatedUser option \<Rightarrow> string \<Rightarrow> store \<Rightarrow> outcome \<times> store" where
  "route_national_approve e user i st =
     transition_route [NATIONAL_SECRETARIAT, ADMIN] e user i national_approve Data_empty st"

text \<open>\<^verbatim>\<open>POST /:id/reject\<close>\<close>

definition route_reject ::
  "env \<Rightarrow> AuthenticatedUser option \<Rightarrow> string \<Rightarrow> reason_input option \<Rightarrow> store
     \<Rightarrow> outcome \<times> store" where
  "route_reject e user i reason st =
     transition_route [REGIONAL_SECRETARIAT, NATIONAL_SECRETARIAT, ADMIN] e user i
       reject (Data_reasonRejected reason) st"

text \<open>
  The router: a request is the route with the parameters it reads. The two list
  routes (\<^verbatim>\<open>GET /\<close>, \<^verbatim>\<open>GET /:id/events\<close>) only read and are left out.
\<close>

datatype request =
  POST_create string string json
| POST_submit string
| GET_by_id string
| POST_request_info string "json option"
| POST_region_approve string
| POST_national_approve string
| POST_reject string "reason_input option"

fun handle :: "env \<Rightarrow> AuthenticatedUser option \<Rightarrow> request \<Rightarrow> store \<Rightarrow> outcome \<times> store" where
  "handle e user (POST_create c r f) st = route_create e user c r f st"
| "handle e user (POST_submit i) st = route_submit e user i st"
| "handle e user (GET_by_id i) st = route_get_by_id e user i st"
| "handle e user (POST_request_info i note) st = route_request_info e user i note st"
| "handle e user (POST_region_approve i) st = route_region_approve e user i st"
| "handle e user (POST_national_approve i) st = route_national_approve e user i st"
| "handle e user (POST_reject i reason) st = route_reject e user i reason st"

text \<open>
  What the router fixes for each request: the roles its role check lets through, and,
  for the five transition routes, the application addressed and the action performed
  (the literal passed to \<^verbatim>\<open>transition\<close>, or written by the submit handler).
\<close>

fun route_roles :: "request \<Rightarrow> Role list" where
  "route_roles (POST_create c r f) = [COMPANY_REP, ADMIN]"
| "route_roles (POST_submit i) = [COMPANY_REP, ADMIN]"
| "route_roles (GET_by_id i) = [ADMIN, NATIONAL_SECRETARIAT, REGIONAL_SECRETARIAT, COMPANY_REP]"
| "route_roles (POST_request_info i note) = [REGIONAL_SECRETARIAT, NATIONAL_SECRETARIAT, ADMIN]"
| "route_roles (POST_region_approve i) = [REGIONAL_SECRETARIAT, ADMIN]"
| "route_roles (POST_national_approve i) = [NATIONAL_SECRETARIAT, ADMIN]"
| "route_roles (POST_reject i reason) = [REGIONAL_SECRETARIAT, NATIONAL_SECRETARIAT, ADMIN]"

fun transition_request :: "request \<Rightarrow> (string \<times> Transition) option" where
  "transition_request (POST_submit i) = Some (i, submit)"
| "transition_request (POST_request_info i note) = Some (i, request_info)"
| "transition_request (POST_region_approve i) = Some (i, region_approve)"
| "transition_request (POST_national_approve i) = Some (i, national_approve)"
| "transition_request (POST_reject i reason) = Some (i, reject)"
| "transition_request _ = None"

text \<open>A transition request succeeded when the route answered 200 with the updated row.\<close>

fun succeeded :: "outcome \<Rightarrow> bool" where
  "succeeded (Sent (Response st (Json_application i ua))) = (st = 200)"
| "succeeded _ = False"

text \<open>
  The stores the routes can produce: from no application and no event (over any table
  of companies), one request after another, each with its own environment and user.
  (The seed script of the repository adds its one application as a draft, with the
  columns the create route gives.)
\<close>

definition initial :: "(string \<rightharpoonup> string option) \<Rightarrow> store" where
  "initial cs = \<lparr>applications = Map.empty, events = [], companies = cs\<rparr>"

fun run :: "(env \<times> AuthenticatedUser option \<times> request) list \<Rightarrow> store \<Rightarrow> store" where
  "run [] st = st"
| "run ((e, user, req) # rest) st = run rest (snd (handle e user req st))"

section \<open>What a successful request writes\<close>

text \<open>
  Names for the values the routes build inline. \<open>updated_row\<close> is the row after the
  \<^verbatim>\<open>update\<close> of \<^verbatim>\<open>transition\<close>; \<open>written_row\<close> is the row a transition route
  writes (the submit route sets \<^verbatim>\<open>submittedAt\<close> itself and touches neither
  \<^verbatim>\<open>decidedAt\<close> nor \<^verbatim>\<open>reasonRejected\<close>); \<open>event_of\<close> is the event inserted;
  \<open>committed\<close> is the store after both writes; \<open>draft_row\<close> is the row of a new draft.
  The lemmas of the next section prove that the routes compute exactly these.
\<close>

definition updated_row ::
  "env \<Rightarrow> Transition \<Rightarrow> data \<Rightarrow> MembershipApplication \<Rightarrow> MembershipApplication" where
  "updated_row e a d app =
     app\<lparr>state := nextState a,
         decidedAt := (if a = national_approve \<or> a = reject then Some (now e) else decidedAt app),
         reasonRejected :=
           (if a = reject
            then written_column
                   (case data_reasonRejected d of
                      Some v \<Rightarrow> v
                    | None \<Rightarrow> Reason_text ''Not specified'')
            else reasonRejected app)\<rparr>"

definition written_row ::
  "env \<Rightarrow> Transition \<Rightarrow> data \<Rightarrow> MembershipApplication \<Rightarrow> MembershipApplication" where
  "written_row e a d app =
     app\<lparr>state := nextState a,
         submittedAt := (if a = submit then Some (now e) else submittedAt app),
         decidedAt := (if a = national_approve \<or> a = reject then Some (now e) else decidedAt app),
         reasonRejected :=
           (if a = reject
            then written_column
                   (case data_reasonRejected d of
                      Some v \<Rightarrow> v
                    | None \<Rightarrow> Reason_text ''Not specified'')
            else reasonRejected app)\<rparr>"

definition event_of :: "env \<Rightarrow> string \<Rightarrow> string \<Rightarrow> Transition \<Rightarrow> data \<Rightarrow> ApplicationEvent" where
  "event_of e i actor a d =
     \<lparr>applicationId = i, action = action_name a, actorId = actor, at = dbNow e, meta = d\<rparr>"

definition committed ::
  "store \<Rightarrow> string \<Rightarrow> MembershipApplication \<Rightarrow> ApplicationEvent \<Rightarrow> store" where
  "committed st i ua ev =
     st\<lparr>applications := (applications st)(i \<mapsto> ua), events := events st @ [ev]\<rparr>"

definition draft_row :: "env \<Rightarrow> string \<Rightarrow> string \<Rightarrow> string \<Rightarrow> json \<Rightarrow> MembershipApplication" where
  "draft_row e c u r f =
     \<lparr>companyId = c, submittedById = u, regionId = r, state = DRAFT, reasonRejected = None,
      form = f, submittedAt = None, decidedAt = None, createdAt = dbNow e\<rparr>"

text \<open>The \<^verbatim>\<open>data\<close> object each route passes on (the submit route writes \<^verbatim>\<open>meta: {}\<close>).\<close>

fun request_data :: "request \<Rightarrow> data" where
  "request_data (POST_request_info i note) = Data_note note"
| "request_data (POST_reject i reason) = Data_reasonRejected reason"
| "request_data _ = Data_empty"

text \<open>The status of the response, when one was sent.\<close>

fun status_of :: "outcome \<Rightarrow> nat option" where
  "status_of (Sent res) = Some (status res)"
| "status_of _ = None"

section \<open>The transition table in the words of the specification\<close>

text \<open>
  The table of legal actions and the next state of each action, written from the
  specification's table, to be compared with \<open>can\<close> and \<open>nextState\<close> of the code.
\<close>

fun legal_in_table :: "AppState \<Rightarrow> Transition \<Rightarrow> bool" where
  "legal_in_table DRAFT a = (a = submit)"
| "legal_in_table SUBMITTED a = (a = request_info \<or> a = region_approve \<or> a = reject)"
| "legal_in_table REGION_REVIEW a = (a = request_info \<or> a = region_approve \<or> a = reject)"
| "legal_in_table REQUESTED_CHANGES a = (a = submit)"
| "legal_in_table NATIONAL_REVIEW a = (a = national_approve \<or> a = reject)"
| "legal_in_table APPROVED a = False"
| "legal_in_table REJECTED a = False"

fun table_next_state :: "Transition \<Rightarrow> AppState" where
  "table_next_state submit = SUBMITTED"
| "table_next_state request_info = REQUESTED_CHANGES"
| "table_next_state region_approve = NATIONAL_REVIEW"
| "table_next_state national_approve = APPROVED"
| "table_next_state reject = REJECTED"


section \<open>Two calls in flight\<close>

text \<open>
  Two requests handled at the same time share the store, and the steps of one may fall
  between the steps of the other wherever a handler waits for the database. The submit
  handler reads the application and checks the table before it opens its transaction:
  these are two steps, \<open>submit_read\<close> and \<open>submit_write\<close>. The helper
  \<^verbatim>\<open>transition\<close> reads, checks and writes inside one \<^verbatim>\<open>$transaction\<close>, with no lock,
  no isolation level and no condition on the state in its \<^verbatim>\<open>update\<close>; whether another
  call's write can fall between its read and its write is decided by the database, not
  by the source. The parameter \<open>isolated\<close> says which: when it holds the whole
  transaction is one step, otherwise the read with its check (\<open>transition_read\<close>) and
  the two writes (\<open>transition_write\<close>) are two steps. In both cases the writes of one
  transaction are applied together or not at all.

  A call is in phase \<open>Start\<close>, or has read the row and found the action legal
  (\<open>Checked\<close>, with the row it read), or has answered (\<open>Done\<close>).
\<close>

datatype phase = Start | Checked MembershipApplication | Done outcome

text \<open>The submit handler up to its transaction, and its transaction.\<close>

definition submit_read ::
  "env \<Rightarrow> AuthenticatedUser option \<Rightarrow> string \<Rightarrow> store \<Rightarrow> outcome + MembershipApplication" where
  "submit_read e user i st =
     (case requireRole [COMPANY_REP, ADMIN] user of
        Some res \<Rightarrow> Inl (Sent res)
      | None \<Rightarrow>
          (case findUnique e st i of
             Inl err \<Rightarrow> Inl (Unhandled err)
           | Inr None \<Rightarrow> Inl (Sent (Response 404 (Json_message ''Not found'')))
           | Inr (Some app) \<Rightarrow>
               (if \<not> can (state app) submit
                then Inl (Sent (Response 409 (Json_message ''Invalid transition'')))
                else Inr app)))"

definition submit_write ::
  "env \<Rightarrow> AuthenticatedUser option \<Rightarrow> string \<Rightarrow> store \<Rightarrow> outcome \<times> store" where
  "submit_write e user i st =
     (case transaction (submit_body e i (userId (the user))) st of
        (Inl err, st') \<Rightarrow> (Unhandled err, st')
      | (Inr updated, st') \<Rightarrow> (Sent (Response 200 (Json_application i updated)), st'))"

text \<open>The body of the transaction of \<^verbatim>\<open>transition\<close>, up to the check and after it.\<close>

definition transition_read ::
  "env \<Rightarrow> string \<Rightarrow> Transition \<Rightarrow> store \<Rightarrow> error + MembershipApplication" where
  "transition_read e i a tx =
     (case findUnique e tx i of
        Inl err \<Rightarrow> Inl err
      | Inr None \<Rightarrow> Inl (Error ''Not found'')
      | Inr (Some app) \<Rightarrow>
          (if \<not> can (state app) a then Inl (Error ''Invalid transition'') else Inr app))"

definition transition_write ::
  "env \<Rightarrow> string \<Rightarrow> string \<Rightarrow> Transition \<Rightarrow> data \<Rightarrow> MembershipApplication \<Rightarrow> store
     \<Rightarrow> error + (MembershipApplication \<times> store)" where
  "transition_write e i actor a d app tx =
     (let newState = nextState a in
      case update_application e tx i
             (\<lambda>row. row\<lparr>state := newState,
                        decidedAt :=
                          (if a \<in> set [national_approve, reject] then Some (now e)
                           else decidedAt app),
                        reasonRejected :=
                          (if a = reject
                           then written_column
                                  (case data_reasonRejected d of
                                     Some v \<Rightarrow> v
                                   | None \<Rightarrow> Reason_text ''Not specified'')
                           else reasonRejected app)\<rparr>) of
        Inl err \<Rightarrow> Inl err
      | Inr (ua, tx') \<Rightarrow>
          (case create_event e tx' i (action_name a) actor d of
             Inl err \<Rightarrow> Inl err
           | Inr tx'' \<Rightarrow> Inr (ua, tx'')))"

text \<open>One step of a submit call, and of a call of a route built on \<^verbatim>\<open>transition\<close>.\<close>

definition submit_phase ::
  "env \<Rightarrow> AuthenticatedUser option \<Rightarrow> string \<Rightarrow> phase \<Rightarrow> store \<Rightarrow> phase \<times> store" where
  "submit_phase e user i ph st =
     (case ph of
        Start \<Rightarrow>
          (case submit_read e user i st of
             Inl out \<Rightarrow> (Done out, st)
           | Inr app \<Rightarrow> (Checked app, st))
      | Checked app \<Rightarrow> (case submit_write e user i st of (out, st') \<Rightarrow> (Done out, st'))
      | Done out \<Rightarrow> (Done out, st))"

definition route_phase ::
  "bool \<Rightarrow> Role list \<Rightarrow> env \<Rightarrow> AuthenticatedUser option \<Rightarrow> string \<Rightarrow> Transition \<Rightarrow> data
     \<Rightarrow> phase \<Rightarrow> store \<Rightarrow> phase \<times> store" where
  "route_phase isolated roles e user i a d ph st =
     (case ph of
        Start \<Rightarrow>
          (if isolated
           then (case transition_route roles e user i a d st of (out, st') \<Rightarrow> (Done out, st'))
           else
             (case requireRole roles user of
                Some res \<Rightarrow> (Done (Sent res), st)
              | None \<Rightarrow>
                  (case transition_read e i a st of
                     Inl err \<Rightarrow> (Done (Sent (Response 409 (Json_message (message err)))), st)
                   | Inr app \<Rightarrow> (Checked app, st))))
      | Checked app \<Rightarrow>
          (case transaction (transition_write e i (userId (the user)) a d app) st of
             (Inr ua, st') \<Rightarrow> (Done (Sent (Response 200 (Json_application i ua))), st')
           | (Inl err, st') \<Rightarrow> (Done (Sent (Response 409 (Json_message (message err)))), st'))
      | Done out \<Rightarrow> (Done out, st))"

text \<open>
  One step of any call (the other routes answer in one step), and a schedule: the list
  says, move by move, whether the first or the second call makes its next step; a call
  that has answered does nothing more.
\<close>

definition step_call ::
  "bool \<Rightarrow> env \<times> AuthenticatedUser option \<times> request \<Rightarrow> phase \<Rightarrow> store \<Rightarrow> phase \<times> store" where
  "step_call isolated c ph st =
     (case c of (e, user, r) \<Rightarrow>
        (case transition_request r of
           None \<Rightarrow>
             (case ph of
                Done out \<Rightarrow> (Done out, st)
              | _ \<Rightarrow> (case handle e user r st of (out, st') \<Rightarrow> (Done out, st')))
         | Some (i, a) \<Rightarrow>
             (if a = submit then submit_phase e user i ph st
              else route_phase isolated (route_roles r) e user i a (request_data r) ph st)))"

fun run_schedule ::
  "bool \<Rightarrow> bool list \<Rightarrow> env \<times> AuthenticatedUser option \<times> request
     \<Rightarrow> env \<times> AuthenticatedUser option \<times> request
     \<Rightarrow> phase \<times> phase \<times> store \<Rightarrow> phase \<times> phase \<times> store" where
  "run_schedule isolated [] c1 c2 cfg = cfg"
| "run_schedule isolated (b # bs) c1 c2 (p1, p2, st) =
     (if b
      then (case step_call isolated c1 p1 st of
              (p1', st') \<Rightarrow> run_schedule isolated bs c1 c2 (p1', p2, st'))
      else (case step_call isolated c2 p2 st of
              (p2', st') \<Rightarrow> run_schedule isolated bs c1 c2 (p1, p2', st')))"

text \<open>
  The row a call writes when it has read \<open>app\<close> and finds \<open>row\<close> in the store at the
  time of its write: \<^verbatim>\<open>decidedAt\<close> and \<^verbatim>\<open>reasonRejected\<close> are computed from the row
  that was read.
\<close>

definition stale_row ::
  "env \<Rightarrow> Transition \<Rightarrow> data \<Rightarrow> MembershipApplication \<Rightarrow> MembershipApplication
     \<Rightarrow> MembershipApplication" where
  "stale_row e a d app row =
     (if a = submit then row\<lparr>state := SUBMITTED, submittedAt := Some (now e)\<rparr>
      else
        row\<lparr>state := nextState a,
            decidedAt :=
              (if a = national_approve \<or> a = reject then Some (now e) else decidedAt app),
            reasonRejected :=
              (if a = reject
               then written_column
                      (case data_reasonRejected d of
                         Some v \<Rightarrow> v
                       | None \<Rightarrow> Reason_text ''Not specified'')
               else reasonRejected app)\<rparr>)"

section \<open>Sample data\<close>

text \<open>
  An environment in which no database call throws, a few users, one company owned by
  user \<open>u1\<close>, and the stores reached by a draft of that company in region \<open>r1\<close>.
\<close>

definition quiet :: "nat \<Rightarrow> string \<Rightarrow> env" where
  "quiet t k = \<lparr>now = t, dbNow = t, newId = k, throws = (\<lambda>_. None)\<rparr>"

definition person :: "string \<Rightarrow> Role \<Rightarrow> string option \<Rightarrow> AuthenticatedUser" where
  "person i rl rg =
     \<lparr>userId = i, email = i @ ''@example.org'', username = i, role = rl, userRegionId = rg\<rparr>"

definition sample_companies :: "string \<rightharpoonup> string option" where
  "sample_companies = [''c1'' \<mapsto> Some ''u1'']"

definition owner :: AuthenticatedUser where
  "owner = person ''u1'' COMPANY_REP None"

definition stranger :: AuthenticatedUser where
  "stranger = person ''u2'' COMPANY_REP None"

definition secretary_r1 :: AuthenticatedUser where
  "secretary_r1 = person ''u3'' REGIONAL_SECRETARIAT (Some ''r1'')"

definition secretary_r2 :: AuthenticatedUser where
  "secretary_r2 = person ''u4'' REGIONAL_SECRETARIAT (Some ''r2'')"

definition national :: AuthenticatedUser where
  "national = person ''u5'' NATIONAL_SECRETARIAT None"

definition admin :: AuthenticatedUser where
  "admin = person ''u6'' ADMIN None"

definition trace_created :: "(env \<times> AuthenticatedUser option \<times> request) list" where
  "trace_created = [(quiet 1 ''a1'', Some owner, POST_create ''c1'' ''r1'' ''{}'')]"

definition trace_submitted :: "(env \<times> AuthenticatedUser option \<times> request) list" where
  "trace_submitted = trace_created @ [(quiet 2 ''a2'', Some owner, POST_submit ''a1'')]"

definition store_created :: store where
  "store_created = run trace_created (initial sample_companies)"

definition store_submitted :: store where
  "store_submitted = run trace_submitted (initial sample_companies)"

definition row_created :: MembershipApplication where
  "row_created = draft_row (quiet 1 ''a1'') ''c1'' ''u1'' ''r1'' ''{}''"

definition row_submitted :: MembershipApplication where
  "row_submitted = row_created\<lparr>state := SUBMITTED, submittedAt := Some 2\<rparr>"

definition trace_asked :: "(env \<times> AuthenticatedUser option \<times> request) list" where
  "trace_asked = trace_submitted @
     [(quiet 3 ''a3'', Some secretary_r1, POST_request_info ''a1'' (Some ''more documents''))]"

definition trace_resubmitted :: "(env \<times> AuthenticatedUser option \<times> request) list" where
  "trace_resubmitted = trace_asked @ [(quiet 4 ''a4'', Some owner, POST_submit ''a1'')]"

definition trace_approved :: "(env \<times> AuthenticatedUser option \<times> request) list" where
  "trace_approved = trace_submitted @
     [(quiet 3 ''a3'', Some secretary_r1, POST_region_approve ''a1''),
      (quiet 4 ''a4'', Some national, POST_national_approve ''a1'')]"

definition trace_rejected_blank :: "(env \<times> AuthenticatedUser option \<times> request) list" where
  "trace_rejected_blank = trace_submitted @
     [(quiet 3 ''a3'', Some national, POST_reject ''a1'' (Some (Reason_text '''')))]"

definition store_resubmitted :: store where
  "store_resubmitted = run trace_resubmitted (initial sample_companies)"

definition store_approved :: store where
  "store_approved = run trace_approved (initial sample_companies)"

definition store_rejected_blank :: store where
  "store_rejected_blank = run trace_rejected_blank (initial sample_companies)"

definition row_approved :: MembershipApplication where
  "row_approved = row_submitted\<lparr>state := APPROVED, decidedAt := Some 4\<rparr>"

section \<open>The routes, case by case\<close>

lemma requireRole_None:
  "requireRole rs u = None \<longleftrightarrow> (\<exists>usr. u = Some usr \<and> role usr \<in> set rs)"
  by (cases u) (simp_all add: requireRole_def)

lemma requireRole_rbac_status:
  "map_option status (requireRole_rbac rs u) = map_option status (requireRole rs u)"
  by (cases u) (simp_all add: requireRole_rbac_def requireRole_def errorResponse_def)

lemma succeeded_iff:
  "succeeded out \<longleftrightarrow> (\<exists>i ua. out = Sent (Response 200 (Json_application i ua)))"
  by (cases out rule: succeeded.cases) auto

lemma can_legal_in_table: "can s a = legal_in_table s a"
  by (cases s; cases a) (simp_all add: can_def)

lemma nextState_table: "nextState a = table_next_state a"
  by (cases a) simp_all

lemma written_row_submit:
  "written_row e submit d app = app\<lparr>state := SUBMITTED, submittedAt := Some (now e)\<rparr>"
  by (simp add: written_row_def)

lemma written_row_other: "a \<noteq> submit \<Longrightarrow> written_row e a d app = updated_row e a d app"
  by (simp add: written_row_def updated_row_def)

lemma transition_flat:
  "transition e i actor a d st =
     (case throws e FindApplication of
        Some m \<Rightarrow> (Inl (PrismaError m), st)
      | None \<Rightarrow>
        (case applications st i of
           None \<Rightarrow> (Inl (Error ''Not found''), st)
         | Some app \<Rightarrow>
           if \<not> can (state app) a then (Inl (Error ''Invalid transition''), st)
           else (case throws e UpdateApplication of
                   Some m \<Rightarrow> (Inl (PrismaError m), st)
                 | None \<Rightarrow>
                   (case throws e CreateEvent of
                      Some m \<Rightarrow> (Inl (PrismaError m), st)
                    | None \<Rightarrow>
                      (Inr (updated_row e a d app),
                       committed st i (updated_row e a d app) (event_of e i actor a d))))))"
  by (simp add: transition_def transaction_def transition_body_def findUnique_def
        update_application_def create_event_def updated_row_def event_of_def committed_def Let_def
      split: option.splits)

lemma route_submit_flat:
  "route_submit e user i st =
     (case requireRole [COMPANY_REP, ADMIN] user of
        Some res \<Rightarrow> (Sent res, st)
      | None \<Rightarrow>
       (case throws e FindApplication of
        Some m \<Rightarrow> (Unhandled (PrismaError m), st)
      | None \<Rightarrow>
        (case applications st i of
           None \<Rightarrow> (Sent (Response 404 (Json_message ''Not found'')), st)
         | Some app \<Rightarrow>
           if \<not> can (state app) submit
           then (Sent (Response 409 (Json_message ''Invalid transition'')), st)
           else (case throws e UpdateApplication of
                   Some m \<Rightarrow> (Unhandled (PrismaError m), st)
                 | None \<Rightarrow>
                   (case throws e CreateEvent of
                      Some m \<Rightarrow> (Unhandled (PrismaError m), st)
                    | None \<Rightarrow>
                      (Sent (Response 200 (Json_application i
                          (app\<lparr>state := SUBMITTED, submittedAt := Some (now e)\<rparr>))),
                       committed st i (app\<lparr>state := SUBMITTED, submittedAt := Some (now e)\<rparr>)
                          (event_of e i (userId (the user)) submit Data_empty)))))))"
  by (simp add: route_submit_def transaction_def submit_body_def findUnique_def
        update_application_def create_event_def event_of_def committed_def Let_def
      split: option.splits)

lemma transition_route_flat:
  "transition_route roles e user i a d st =
     (case requireRole roles user of
        Some res \<Rightarrow> (Sent res, st)
      | None \<Rightarrow>
       (case throws e FindApplication of
        Some m \<Rightarrow> (Sent (Response 409 (Json_message m)), st)
      | None \<Rightarrow>
        (case applications st i of
           None \<Rightarrow> (Sent (Response 409 (Json_message ''Not found'')), st)
         | Some app \<Rightarrow>
           if \<not> can (state app) a
           then (Sent (Response 409 (Json_message ''Invalid transition'')), st)
           else (case throws e UpdateApplication of
                   Some m \<Rightarrow> (Sent (Response 409 (Json_message m)), st)
                 | None \<Rightarrow>
                   (case throws e CreateEvent of
                      Some m \<Rightarrow> (Sent (Response 409 (Json_message m)), st)
                    | None \<Rightarrow>
                      (Sent (Response 200 (Json_application i (updated_row e a d app))),
                       committed st i (updated_row e a d app)
                          (event_of e i (userId (the user)) a d)))))))"
  by (simp add: transition_route_def transition_flat split: option.splits)

lemma route_create_flat:
  "route_create e user c r f st =
     (case (case user of None \<Rightarrow> Some (errorResponse ''Access token required'' 401)
            | Some u \<Rightarrow> requireRole [COMPANY_REP, ADMIN] user) of
        Some res \<Rightarrow> (Sent res, st)
      | None \<Rightarrow>
          (case throws e CreateApplication of
             Some m \<Rightarrow> (Next (PrismaError m), st)
           | None \<Rightarrow>
               if applications st (newId e) \<noteq> None then (Next (PrismaError ''P2002''), st)
               else (Sent (successResponse (newId e, draft_row e c (userId (the user)) r f)
                             ''Application draft created successfully'' 201),
                     st\<lparr>applications :=
                          (applications st)(newId e \<mapsto> draft_row e c (userId (the user)) r f)\<rparr>)))"
  by (auto simp: route_create_def authenticateToken_def create_application_def draft_row_def
        Let_def
      split: option.splits)

lemmas route_defs =
  route_request_info_def route_region_approve_def route_national_approve_def route_reject_def

lemma handle_transition_cases:
  assumes "transition_request r = Some (i, a)" and "handle e u r st = (out, st')"
  shows "(\<not> succeeded out \<and> st' = st) \<or>
         (\<exists>usr app. u = Some usr \<and> role usr \<in> set (route_roles r) \<and>
            applications st i = Some app \<and> can (state app) a \<and>
            throws e FindApplication = None \<and> throws e UpdateApplication = None \<and>
            throws e CreateEvent = None \<and>
            out = Sent (Response 200 (Json_application i (written_row e a (request_data r) app))) \<and>
            st' = committed st i (written_row e a (request_data r) app)
                    (event_of e i (userId usr) a (request_data r)))"
  using assms
  by (cases r)
     (auto simp: route_submit_flat transition_route_flat route_defs requireRole_None
        written_row_submit written_row_other errorResponse_def requireRole_def
        split: option.splits if_splits)

lemma handle_transition_success:
  assumes "transition_request r = Some (i, a)" and "role usr \<in> set (route_roles r)"
    and "applications st i = Some app" and "can (state app) a"
    and "throws e FindApplication = None" and "throws e UpdateApplication = None"
    and "throws e CreateEvent = None"
  shows "handle e (Some usr) r st =
           (Sent (Response 200 (Json_application i (written_row e a (request_data r) app))),
            committed st i (written_row e a (request_data r) app)
              (event_of e i (userId usr) a (request_data r)))"
  using assms
  by (cases r)
     (auto simp: route_submit_flat transition_route_flat route_defs requireRole_def
        written_row_submit written_row_other)

lemma handle_transition_illegal:
  assumes "transition_request r = Some (i, a)" and "role usr \<in> set (route_roles r)"
    and "applications st i = Some app" and "\<not> can (state app) a"
    and "throws e FindApplication = None"
  shows "handle e (Some usr) r st =
           (Sent (Response 409 (Json_message ''Invalid transition'')), st)"
  using assms
  by (cases r)
     (auto simp: route_submit_flat transition_route_flat route_defs requireRole_def)

lemma handle_other_cases:
  assumes "transition_request r = None" and "handle e u r st = (out, st')"
  shows "st' = st \<or>
         (\<exists>c rg f usr. r = POST_create c rg f \<and> u = Some usr \<and>
            applications st (newId e) = None \<and>
            st' = st\<lparr>applications :=
                      (applications st)(newId e \<mapsto> draft_row e c (userId usr) rg f)\<rparr>)"
  using assms
  by (cases r)
     (auto simp: route_create_flat route_get_by_id_def findUnique_def
        find_owned_company_def requireRole_None
        split: option.splits if_splits)

text \<open>The sample stores, evaluated.\<close>

lemmas sample_defs = quiet_def person_def sample_companies_def owner_def stranger_def
  secretary_r1_def secretary_r2_def national_def admin_def trace_created_def trace_submitted_def
  store_created_def store_submitted_def row_created_def row_submitted_def initial_def

lemmas eval_defs = route_create_flat requireRole_def route_submit_flat
  transition_route_flat route_defs committed_def event_of_def updated_row_def can_def
  written_row_def draft_row_def successResponse_def errorResponse_def

lemma store_created_eq:
  "store_created =
     \<lparr>applications = [''a1'' \<mapsto> row_created], events = [], companies = sample_companies\<rparr>"
  by (simp add: sample_defs eval_defs)

lemma store_submitted_eq:
  "store_submitted =
     \<lparr>applications = [''a1'' \<mapsto> row_submitted],
      events = [event_of (quiet 2 ''a2'') ''a1'' ''u1'' submit Data_empty],
      companies = sample_companies\<rparr>"
  by (simp add: sample_defs eval_defs)

lemma handle_row:
  assumes "handle e u r st = (out, st')"
  shows "applications st' i = applications st i \<or>
         (\<exists>a app. transition_request r = Some (i, a) \<and> applications st i = Some app \<and>
            can (state app) a \<and> succeeded out \<and>
            applications st' i = Some (written_row e a (request_data r) app)) \<or>
         (\<exists>c rg f usr. r = POST_create c rg f \<and> i = newId e \<and> applications st i = None \<and>
            applications st' i = Some (draft_row e c usr rg f))"
proof (cases "transition_request r")
  case None
  from handle_other_cases [OF None assms] show ?thesis
    by (auto simp: fun_upd_def)
next
  case (Some p)
  obtain j a where p: "p = (j, a)" by (cases p)
  from handle_transition_cases [OF Some [unfolded p] assms] show ?thesis
    unfolding Some p by (auto simp: committed_def succeeded_iff)
qed

lemma handle_preserves:
  assumes step: "handle e u r st = (out, st')"
    and inv: "\<And>j row. applications st j = Some row \<Longrightarrow> P row"
    and draft: "\<And>c usr rg f. P (draft_row e c usr rg f)"
    and wr: "\<And>a d row. P row \<Longrightarrow> can (state row) a \<Longrightarrow> P (written_row e a d row)"
    and row: "applications st' i = Some app"
  shows "P app"
  using handle_row [OF step, of i] row inv draft wr
  by (metis option.inject)

lemma run_preserves:
  assumes inv: "\<And>j row. applications st j = Some row \<Longrightarrow> P row"
    and draft: "\<And>e c usr rg f. P (draft_row e c usr rg f)"
    and wr: "\<And>e a d row. P row \<Longrightarrow> can (state row) a \<Longrightarrow> P (written_row e a d row)"
    and row: "applications (run tr st) i = Some app"
  shows "P app"
  using inv row
proof (induction tr arbitrary: st)
  case Nil
  then show ?case by simp
next
  case (Cons x tr)
  obtain e u r where x: "x = (e, u, r)" by (cases x)
  have "\<And>j row. applications (snd (handle e u r st)) j = Some row \<Longrightarrow> P row"
    by (rule handle_preserves [where st = st and e = e and u = u and r = r and P = P])
       (auto intro: Cons.prems(1) draft wr simp: prod_eq_iff)
  with Cons.IH [of "snd (handle e u r st)"] Cons.prems(2) show ?case
    by (simp add: x)
qed

lemma run_initial_preserves:
  assumes draft: "\<And>e c usr rg f. P (draft_row e c usr rg f)"
    and wr: "\<And>e a d row. P row \<Longrightarrow> can (state row) a \<Longrightarrow> P (written_row e a d row)"
    and row: "applications (run tr (initial cs)) i = Some app"
  shows "P app"
  by (rule run_preserves [where P = P and st = "initial cs", OF _ draft wr row])
     (simp_all add: initial_def)



lemmas more_defs = trace_asked_def trace_resubmitted_def trace_approved_def
  trace_rejected_blank_def store_resubmitted_def store_approved_def store_rejected_blank_def
  row_approved_def

lemma run_append: "run (xs @ ys) st = run ys (run xs st)"
  by (induction xs arbitrary: st) auto

lemma applications_resubmitted:
  "applications store_resubmitted ''a1'' =
     Some (row_submitted\<lparr>state := SUBMITTED, submittedAt := Some 4\<rparr>)"
  by (simp add: sample_defs more_defs eval_defs)

lemma applications_approved: "applications store_approved ''a1'' = Some row_approved"
  by (simp add: sample_defs more_defs eval_defs)


lemma no_region_review_inv:
  assumes "applications (run tr (initial cs)) i = Some app"
  shows "state app \<noteq> REGION_REVIEW"
proof -
  let ?P = "\<lambda>row :: MembershipApplication. state row \<noteq> REGION_REVIEW"
  have "?P app"
  proof (rule run_initial_preserves [where P = ?P, OF _ _ assms])
    fix e c usr rg f
    show "?P (draft_row e c usr rg f)"
      by (simp add: draft_row_def)
  next
    fix e a d and row :: MembershipApplication
    show "?P (written_row e a d row)"
      by (cases a) (simp_all add: written_row_def)
  qed
  then show ?thesis .
qed

lemma handle_keeps_left_draft:
  assumes "handle e u r st = (out, st')" and "applications st i = Some app"
    and "state app \<noteq> DRAFT"
  shows "\<exists>app'. applications st' i = Some app' \<and> state app' \<noteq> DRAFT"
proof -
  have "applications st' i = Some app \<or>
        (\<exists>a. applications st' i = Some (written_row e a (request_data r) app))"
    using handle_row [OF assms(1), of i] assms(2) by auto
  moreover have "state (written_row e a d app) \<noteq> DRAFT" for a d
    by (cases a) (simp_all add: written_row_def)
  ultimately show ?thesis
    using assms(3) by auto
qed

lemma run_keeps_left_draft:
  assumes "applications st i = Some app" and "state app \<noteq> DRAFT"
  shows "\<exists>app'. applications (run tr st) i = Some app' \<and> state app' \<noteq> DRAFT"
  using assms
proof (induction tr arbitrary: st app)
  case Nil
  then show ?case by simp
next
  case (Cons x tr)
  obtain e u r where x: "x = (e, u, r)" by (cases x)
  have "handle e u r st = (fst (handle e u r st), snd (handle e u r st))"
    by simp
  from handle_keeps_left_draft [OF this Cons.prems]
  obtain app' where "applications (snd (handle e u r st)) i = Some app'" and "state app' \<noteq> DRAFT"
    by blast
  from Cons.IH [OF this] show ?case
    by (simp add: x)
qed

lemma handle_transition_row:
  assumes "transition_request r = Some (i, a)" and "handle e u r st = (out, st')"
    and "applications st i = Some app"
  shows "applications st' i =
           Some (if succeeded out then written_row e a (request_data r) app else app)"
  using handle_transition_cases [OF assms(1,2)] assms(3)
  by (auto simp: committed_def)

lemma quiet_throws: "throws (quiet t k) op = None"
  by (simp add: quiet_def)

lemma handle_ignores_region:
  "handle e (Some (usr\<lparr>userRegionId := rg\<rparr>)) r st = handle e (Some usr) r st"
  by (cases r)
     (auto simp: route_create_flat route_submit_flat transition_route_flat route_defs
        route_get_by_id_def requireRole_def split: option.splits sum.splits)

lemma can_after:
  assumes "can s a1" and "can s a2"
  shows "can (nextState a1) a2 \<longleftrightarrow> a1 = region_approve \<and> a2 = reject"
  using assms by (cases s; cases a1; cases a2) (simp_all add: can_def)






lemma route_submit_split:
  "route_submit e user i st =
     (case submit_read e user i st of
        Inl out \<Rightarrow> (out, st)
      | Inr app \<Rightarrow> submit_write e user i st)"
  by (simp add: route_submit_def submit_read_def submit_write_def
      split: option.splits sum.splits)

lemma transition_body_split:
  "transition_body e i actor a d tx =
     (case transition_read e i a tx of
        Inl err \<Rightarrow> Inl err
      | Inr app \<Rightarrow> transition_write e i actor a d app tx)"
  by (simp add: transition_body_def transition_read_def transition_write_def
      split: option.splits sum.splits)

lemma handle_as_transition_route:
  assumes "transition_request r = Some (i, a)" and "a \<noteq> submit"
  shows "handle e user r st = transition_route (route_roles r) e user i a (request_data r) st"
  using assms by (cases r) (simp_all add: route_defs)

lemma handle_as_route_submit:
  assumes "transition_request r = Some (i, submit)"
  shows "handle e user r st = route_submit e user i st"
  using assms by (cases r) simp_all

text \<open>A call that runs its steps with nothing in between does what the route does.\<close>

lemma step_call_alone:
  "run_schedule isolated [True, True] (e, user, r) c2 (Start, p2, st) =
     (Done (fst (handle e user r st)), p2, snd (handle e user r st))"
proof (cases "transition_request r")
  case None
  then show ?thesis
    by (simp add: step_call_def split: prod.splits)
next
  case (Some p)
  obtain i a where p: "p = (i, a)" by (cases p)
  show ?thesis
  proof (cases "a = submit")
    case True
    with Some p have t: "transition_request r = Some (i, submit)" by simp
    show ?thesis
      by (simp add: step_call_def t submit_phase_def handle_as_route_submit [OF t]
            route_submit_split split: sum.splits prod.splits)
  next
    case False
    with Some p have t: "transition_request r = Some (i, a)" by simp
    show ?thesis
      by (simp add: step_call_def t False route_phase_def
            handle_as_transition_route [OF t False] transition_route_def transition_def
            transaction_def transition_body_split
          split: sum.splits prod.splits option.splits)
  qed
qed


lemma step_done [simp]: "step_call isolated c (Done out) st = (Done out, st)"
  by (cases c)
     (simp add: step_call_def submit_phase_def route_phase_def split: option.splits prod.splits)

lemma step_read_legal:
  assumes "transition_request r = Some (i, a)" and "\<not> isolated \<or> a = submit"
    and "role usr \<in> set (route_roles r)" and "applications st i = Some app"
    and "can (state app) a" and "throws e FindApplication = None"
  shows "step_call isolated (e, Some usr, r) Start st = (Checked app, st)"
  using assms
  by (cases r)
     (auto simp: step_call_def submit_phase_def route_phase_def submit_read_def
        transition_read_def findUnique_def requireRole_def)

lemma step_read_illegal:
  assumes "transition_request r = Some (i, a)" and "\<not> isolated \<or> a = submit"
    and "role usr \<in> set (route_roles r)" and "applications st i = Some app"
    and "\<not> can (state app) a" and "throws e FindApplication = None"
  shows "step_call isolated (e, Some usr, r) Start st =
           (Done (Sent (Response 409 (Json_message ''Invalid transition''))), st)"
  using assms
  by (cases r)
     (auto simp: step_call_def submit_phase_def route_phase_def submit_read_def
        transition_read_def findUnique_def requireRole_def)

lemma step_write:
  assumes "transition_request r = Some (i, a)" and "\<not> isolated \<or> a = submit"
    and "applications st i = Some row"
    and "throws e UpdateApplication = None" and "throws e CreateEvent = None"
  shows "step_call isolated (e, Some usr, r) (Checked app) st =
           (Done (Sent (Response 200
              (Json_application i (stale_row e a (request_data r) app row)))),
            committed st i (stale_row e a (request_data r) app row)
              (event_of e i (userId usr) a (request_data r)))"
  using assms
  by (cases r)
     (auto simp: step_call_def submit_phase_def route_phase_def submit_write_def
        transition_write_def submit_body_def transaction_def update_application_def
        create_event_def stale_row_def committed_def event_of_def Let_def)

lemma step_single:
  assumes "transition_request r = Some (i, a)" and "isolated" and "a \<noteq> submit"
  shows "step_call isolated (e, u, r) Start st =
           (Done (fst (handle e u r st)), snd (handle e u r st))"
  using assms
  by (simp add: step_call_def route_phase_def handle_as_transition_route split: prod.splits)

lemma can_submit_both:
  assumes "can s a1" and "can s a2"
  shows "a1 = submit \<longleftrightarrow> a2 = submit"
  using assms by (cases s; cases a1; cases a2) (simp_all add: can_def)


lemma state_stale_row [simp]: "state (stale_row e a d app row) = nextState a"
  by (simp add: stale_row_def)

lemma applications_committed [simp]: "applications (committed st i ua ev) i = Some ua"
  by (simp add: committed_def)

lemma events_committed [simp]: "events (committed st i ua ev) = events st @ [ev]"
  by (simp add: committed_def)

lemma two_calls_schedules:
  assumes t1: "transition_request r1 = Some (i, a1)" and t2: "transition_request r2 = Some (i, a2)"
    and ro1: "role usr1 \<in> set (route_roles r1)" and ro2: "role usr2 \<in> set (route_roles r2)"
    and app: "applications st i = Some app"
    and c1: "can (state app) a1" and c2: "can (state app) a2"
    and q1: "\<forall>op. throws e1 op = None" and q2: "\<forall>op. throws e2 op = None"
    and sch: "sch = [True, True, False, False] \<or> sch = [True, False, True, False] \<or>
              sch = [True, False, False, True]"
  shows "\<exists>out1 out2 st'.
           run_schedule isolated sch (e1, Some usr1, r1) (e2, Some usr2, r2) (Start, Start, st) =
             (Done out1, Done out2, st') \<and>
           succeeded out1 \<and>
           (if sch \<noteq> [True, True, False, False] \<and> (\<not> isolated \<or> a1 = submit)
            then succeeded out2 \<and> length (events st') = length (events st) + 2 \<and>
                 map_option state (applications st' i) =
                   Some (nextState (if sch = [True, False, False, True] then a1 else a2))
            else if a1 = region_approve \<and> a2 = reject
            then succeeded out2 \<and> length (events st') = length (events st) + 2 \<and>
                 map_option state (applications st' i) = Some REJECTED
            else out2 = Sent (Response 409 (Json_message ''Invalid transition'')) \<and>
                 length (events st') = length (events st) + 1 \<and>
                 map_option state (applications st' i) = Some (nextState a1))"
proof (cases "\<not> isolated \<or> a1 = submit")
  case True
  with can_submit_both [OF c1 c2] have two1: "\<not> isolated \<or> a1 = submit"
    and two2: "\<not> isolated \<or> a2 = submit" by auto
  note f1 = q1 [rule_format, of FindApplication] and u1 = q1 [rule_format, of UpdateApplication]
    and v1 = q1 [rule_format, of CreateEvent]
  note f2 = q2 [rule_format, of FindApplication] and u2 = q2 [rule_format, of UpdateApplication]
    and v2 = q2 [rule_format, of CreateEvent]
  let ?d1 = "request_data r1" and ?d2 = "request_data r2"
  have read1: "step_call isolated (e1, Some usr1, r1) Start st = (Checked app, st)"
    by (rule step_read_legal [OF t1 two1 ro1 app c1 f1])
  have read2: "step_call isolated (e2, Some usr2, r2) Start st = (Checked app, st)"
    by (rule step_read_legal [OF t2 two2 ro2 app c2 f2])
  note write1 = step_write [OF t1 two1 _ u1 v1, of _ _ usr1]
  note write2 = step_write [OF t2 two2 _ u2 v2, of _ _ usr2]
  from sch show ?thesis
  proof (elim disjE)
    assume s: "sch = [True, True, False, False]"
    let ?ua1 = "stale_row e1 a1 ?d1 app app"
    let ?st1 = "committed st i ?ua1 (event_of e1 i (userId usr1) a1 ?d1)"
    have w1: "step_call isolated (e1, Some usr1, r1) (Checked app) st =
                (Done (Sent (Response 200 (Json_application i ?ua1))), ?st1)"
      by (rule write1 [OF app])
    have row1: "applications ?st1 i = Some ?ua1" by simp
    show ?thesis
    proof (cases "a1 = region_approve \<and> a2 = reject")
      case True
      with can_after [OF c1 c2] have "can (state ?ua1) a2" by simp
      from step_read_legal [OF t2 two2 ro2 row1 this f2] write2 [OF row1, of ?ua1] read1 w1 s True
      show ?thesis by simp
    next
      case False
      with can_after [OF c1 c2] have "\<not> can (state ?ua1) a2" by simp
      from step_read_illegal [OF t2 two2 ro2 row1 this f2] read1 w1 s False
      show ?thesis by simp
    qed
  next
    assume s: "sch = [True, False, True, False]"
    let ?ua1 = "stale_row e1 a1 ?d1 app app"
    let ?st1 = "committed st i ?ua1 (event_of e1 i (userId usr1) a1 ?d1)"
    have w1: "step_call isolated (e1, Some usr1, r1) (Checked app) st =
                (Done (Sent (Response 200 (Json_application i ?ua1))), ?st1)"
      by (rule write1 [OF app])
    have row1: "applications ?st1 i = Some ?ua1" by simp
    from write2 [OF row1, of app] read1 read2 w1 s True
    show ?thesis by simp
  next
    assume s: "sch = [True, False, False, True]"
    let ?ua2 = "stale_row e2 a2 ?d2 app app"
    let ?st2 = "committed st i ?ua2 (event_of e2 i (userId usr2) a2 ?d2)"
    have w2: "step_call isolated (e2, Some usr2, r2) (Checked app) st =
                (Done (Sent (Response 200 (Json_application i ?ua2))), ?st2)"
      by (rule write2 [OF app])
    have row2: "applications ?st2 i = Some ?ua2" by simp
    from write1 [OF row2, of app] read1 read2 w2 s True
    show ?thesis by simp
  qed
next
  case False
  then have iso: "isolated" and ns1: "a1 \<noteq> submit" by auto
  with can_submit_both [OF c1 c2] have ns2: "a2 \<noteq> submit" by simp
  let ?row1 = "written_row e1 a1 (request_data r1) app"
  let ?st1 = "committed st i ?row1 (event_of e1 i (userId usr1) a1 (request_data r1))"
  have h1: "handle e1 (Some usr1) r1 st =
              (Sent (Response 200 (Json_application i ?row1)), ?st1)"
    using handle_transition_success [OF t1 ro1 app c1] q1 by simp
  have s1: "step_call isolated (e1, Some usr1, r1) Start st =
              (Done (Sent (Response 200 (Json_application i ?row1))), ?st1)"
    using step_single [OF t1 iso ns1, of e1 "Some usr1" st] h1 by simp
  have row1: "applications ?st1 i = Some ?row1" by simp
  have st_row1: "state ?row1 = nextState a1" by (simp add: written_row_def)
  have s2: "step_call isolated (e2, Some usr2, r2) Start ?st1 =
              (Done (fst (handle e2 (Some usr2) r2 ?st1)), snd (handle e2 (Some usr2) r2 ?st1))"
    by (rule step_single [OF t2 iso ns2])
  show ?thesis
  proof (cases "a1 = region_approve \<and> a2 = reject")
    case True
    with can_after [OF c1 c2] st_row1 have "can (state ?row1) a2" by simp
    from handle_transition_success [OF t2 ro2 row1 this] q2
    have "handle e2 (Some usr2) r2 ?st1 =
            (Sent (Response 200 (Json_application i (written_row e2 a2 (request_data r2) ?row1))),
             committed ?st1 i (written_row e2 a2 (request_data r2) ?row1)
               (event_of e2 i (userId usr2) a2 (request_data r2)))"
      by simp
    with s1 s2 sch iso ns1 True show ?thesis
      by (auto simp: written_row_def)
  next
    case False
    with can_after [OF c1 c2] st_row1 have "\<not> can (state ?row1) a2" by simp
    from handle_transition_illegal [OF t2 ro2 row1 this] q2
    have "handle e2 (Some usr2) r2 ?st1 =
            (Sent (Response 409 (Json_message ''Invalid transition'')), ?st1)"
      by simp
    with s1 s2 sch iso ns1 False st_row1 show ?thesis
      by auto
  qed
qed

lemma run_schedule_mirror:
  "run_schedule isolated (map Not sch) c2 c1 (p2, p1, st) =
     (case run_schedule isolated sch c1 c2 (p1, p2, st) of (q1, q2, st') \<Rightarrow> (q2, q1, st'))"
  by (induction sch arbitrary: p1 p2 st) (auto split: prod.splits)

text \<open>
  A reject whose \<^verbatim>\<open>reasonRejected\<close> is the update operation
  \<^verbatim>\<open>{ set: null }\<close> is not caught by the fallback, succeeds, and leaves the application
  \<open>REJECTED\<close> with a null reason.
\<close>

lemma reject_set_null:
  "succeeded (fst (handle (quiet 3 ''a3'') (Some national)
      (POST_reject ''a1'' (Some (Reason_set None))) store_submitted)) \<and>
   map_option state (applications (snd (handle (quiet 3 ''a3'') (Some national)
      (POST_reject ''a1'' (Some (Reason_set None))) store_submitted)) ''a1'') = Some REJECTED \<and>
   map_option reasonRejected (applications (snd (handle (quiet 3 ''a3'') (Some national)
      (POST_reject ''a1'' (Some (Reason_set None))) store_submitted)) ''a1'') = Some None"
  by (simp add: store_submitted_eq eval_defs national_def person_def quiet_def
        row_submitted_def row_created_def)

section \<open>The claims\<close>

subsection \<open>C1\<close>

text \<open>
  C1. For an application that exists in state \<open>S\<close>, an actor who passes the role check of
  the route and a store that does not fail, a transition request with action \<open>A\<close>
  succeeds if and only if \<open>(S, A)\<close> is legal in the transition table of the
  specification, and on success the stored state is the table's next state of \<open>A\<close>; an
  illegal request (any request from \<open>APPROVED\<close> or \<open>REJECTED\<close> among them) is answered
  with \<^verbatim>\<open>Invalid transition\<close> and changes nothing. The same holds of the helper
  \<^verbatim>\<open>transition\<close> for every action \<open>b\<close>.
\<close>

theorem transition_follows_table:
  assumes "transition_request r = Some (i, a)" and "role usr \<in> set (route_roles r)"
    and "applications st i = Some app" and "\<forall>op. throws e op = None"
    and "handle e (Some usr) r st = (out, st')"
  shows "(succeeded out \<longleftrightarrow> legal_in_table (state app) a) \<and>
         (succeeded out \<longrightarrow> map_option state (applications st' i) = Some (table_next_state a)) \<and>
         (\<not> legal_in_table (state app) a \<longrightarrow>
            out = Sent (Response 409 (Json_message ''Invalid transition'')) \<and> st' = st) \<and>
         (case transition e i actor b d st of
            (Inr ua, st2) \<Rightarrow> legal_in_table (state app) b \<and> state ua = table_next_state b \<and>
                               applications st2 i = Some ua
          | (Inl err, st2) \<Rightarrow> \<not> legal_in_table (state app) b \<and>
                               err = Error ''Invalid transition'' \<and> st2 = st)"
proof (cases "can (state app) a")
  case True
  from handle_transition_success [OF assms(1,2,3) True] assms(4,5)
  have "out = Sent (Response 200 (Json_application i (written_row e a (request_data r) app)))"
    and "st' = committed st i (written_row e a (request_data r) app)
                 (event_of e i (userId usr) a (request_data r))"
    by simp_all
  with True assms(3,4) show ?thesis
    by (simp add: can_legal_in_table [symmetric] nextState_table [symmetric] committed_def
          written_row_def transition_flat updated_row_def)
next
  case False
  from handle_transition_illegal [OF assms(1,2,3) False] assms(4,5)
  have "out = Sent (Response 409 (Json_message ''Invalid transition''))" and "st' = st"
    by simp_all
  with False assms(3,4) show ?thesis
    by (simp add: can_legal_in_table [symmetric] nextState_table [symmetric] committed_def
          transition_flat updated_row_def)
qed

text \<open>The regional approval of the submitted sample application, and a national approval
  refused in that state.\<close>

theorem transition_follows_table_witness:
  "transition_request (POST_region_approve ''a1'') = Some (''a1'', region_approve) \<and>
   role secretary_r1 \<in> set (route_roles (POST_region_approve ''a1'')) \<and>
   applications store_submitted ''a1'' = Some row_submitted \<and>
   (\<forall>op. throws (quiet 3 ''a3'') op = None) \<and>
   succeeded (fst (handle (quiet 3 ''a3'') (Some secretary_r1) (POST_region_approve ''a1'') store_submitted)) \<and>
   legal_in_table (state row_submitted) region_approve \<and>
   map_option state (applications (snd (handle (quiet 3 ''a3'') (Some secretary_r1) (POST_region_approve ''a1'') store_submitted)) ''a1'') = Some NATIONAL_REVIEW \<and>
   fst (transition (quiet 3 ''a3'') ''a1'' ''u5'' national_approve Data_empty store_submitted) = Inl (Error ''Invalid transition'')"
  using transition_follows_table [where r = "POST_region_approve ''a1''" and i = "''a1''"
      and a = region_approve and usr = secretary_r1 and st = store_submitted
      and app = row_submitted and e = "quiet 3 ''a3''"
      and out = "fst (handle (quiet 3 ''a3'') (Some secretary_r1) (POST_region_approve ''a1'') store_submitted)"
      and st' = "snd (handle (quiet 3 ''a3'') (Some secretary_r1) (POST_region_approve ''a1'') store_submitted)"
      and actor = "''u5''" and b = national_approve and d = Data_empty]
  by (simp add: store_submitted_eq row_submitted_def row_created_def draft_row_def secretary_r1_def
        person_def quiet_def split: prod.splits sum.splits)

subsection \<open>C2\<close>

text \<open>
  C2. A transition request that succeeds was legal for the application's row \<open>app\<close>,
  replaces that row by the updated row (the new state, which differs from the old one,
  and the timestamps and the reason the action calls for, every other column as
  before), and appends exactly one event, for that application, with the action, the
  actor and the data of the request; both writes are in the resulting store and nothing
  else in it changes. A request that does not succeed, for whatever reason, leaves the
  whole store as it was; in particular a request for a missing application, an illegal
  request, and a request during which a database call throws (also the insertion of
  the event, after the row was updated inside the transaction) do not succeed.
\<close>

theorem transition_atomic:
  assumes "transition_request r = Some (i, a)" and "handle e u r st = (out, st')"
  shows "(if succeeded out
          then (\<exists>usr app ua ev. u = Some usr \<and>
                  applications st i = Some app \<and> can (state app) a \<and>
                  ua = app\<lparr>state := nextState a,
                           submittedAt := (if a = submit then Some (now e) else submittedAt app),
                           decidedAt :=
                             (if a = national_approve \<or> a = reject then Some (now e)
                              else decidedAt app),
                           reasonRejected :=
                             (if a = reject
                              then written_column
                                     (case data_reasonRejected (request_data r) of
                                        Some v \<Rightarrow> v
                                      | None \<Rightarrow> Reason_text ''Not specified'')
                              else reasonRejected app)\<rparr> \<and>
                  state ua = nextState a \<and> state ua \<noteq> state app \<and>
                  out = Sent (Response 200 (Json_application i ua)) \<and>
                  applications st' = (applications st)(i \<mapsto> ua) \<and>
                  ev = \<lparr>applicationId = i, action = action_name a, actorId = userId usr,
                        at = dbNow e, meta = request_data r\<rparr> \<and>
                  events st' = events st @ [ev] \<and>
                  applicationId ev = i \<and> action ev = action_name a \<and> actorId ev = userId usr \<and>
                  companies st' = companies st)
          else st' = st) \<and>
         (applications st i = None \<or>
          (\<exists>app. applications st i = Some app \<and> \<not> can (state app) a) \<or>
          throws e FindApplication \<noteq> None \<or> throws e UpdateApplication \<noteq> None \<or>
          throws e CreateEvent \<noteq> None
          \<longrightarrow> \<not> succeeded out)"
proof -
  have moves: "nextState a \<noteq> s" if "can s a" for s
    using that by (cases s; cases a) (simp_all add: can_def)
  let ?fails = "applications st i = None \<or>
          (\<exists>app. applications st i = Some app \<and> \<not> can (state app) a) \<or>
          throws e FindApplication \<noteq> None \<or> throws e UpdateApplication \<noteq> None \<or>
          throws e CreateEvent \<noteq> None"
  from handle_transition_cases [OF assms]
  show ?thesis
  proof (elim disjE exE conjE)
    assume "\<not> succeeded out" and "st' = st"
    then show ?thesis by simp
  next
    fix usr app
    assume u: "u = Some usr" and row: "applications st i = Some app"
      and legal: "can (state app) a"
      and quiet: "throws e FindApplication = None" "throws e UpdateApplication = None"
        "throws e CreateEvent = None"
      and out: "out = Sent (Response 200
                  (Json_application i (written_row e a (request_data r) app)))"
      and st': "st' = committed st i (written_row e a (request_data r) app)
                        (event_of e i (userId usr) a (request_data r))"
    let ?ua = "written_row e a (request_data r) app"
    let ?ev = "event_of e i (userId usr) a (request_data r)"
    have ok: "succeeded out" and none: "\<not> ?fails"
      using out row legal quiet by simp_all
    have "u = Some usr \<and>
          applications st i = Some app \<and> can (state app) a \<and>
          ?ua = app\<lparr>state := nextState a,
                   submittedAt := (if a = submit then Some (now e) else submittedAt app),
                   decidedAt :=
                     (if a = national_approve \<or> a = reject then Some (now e)
                      else decidedAt app),
                   reasonRejected :=
                     (if a = reject
                      then written_column
                             (case data_reasonRejected (request_data r) of
                                Some v \<Rightarrow> v
                              | None \<Rightarrow> Reason_text ''Not specified'')
                      else reasonRejected app)\<rparr> \<and>
          state ?ua = nextState a \<and> state ?ua \<noteq> state app \<and>
          out = Sent (Response 200 (Json_application i ?ua)) \<and>
          applications st' = (applications st)(i \<mapsto> ?ua) \<and>
          ?ev = \<lparr>applicationId = i, action = action_name a, actorId = userId usr,
                 at = dbNow e, meta = request_data r\<rparr> \<and>
          events st' = events st @ [?ev] \<and>
          applicationId ?ev = i \<and> action ?ev = action_name a \<and> actorId ?ev = userId usr \<and>
          companies st' = companies st"
      using u row legal out st' moves [OF legal]
      by (simp add: written_row_def event_of_def committed_def)
    then have "\<exists>usr app ua ev. u = Some usr \<and>
          applications st i = Some app \<and> can (state app) a \<and>
          ua = app\<lparr>state := nextState a,
                   submittedAt := (if a = submit then Some (now e) else submittedAt app),
                   decidedAt :=
                     (if a = national_approve \<or> a = reject then Some (now e)
                      else decidedAt app),
                   reasonRejected :=
                     (if a = reject
                      then written_column
                             (case data_reasonRejected (request_data r) of
                                Some v \<Rightarrow> v
                              | None \<Rightarrow> Reason_text ''Not specified'')
                      else reasonRejected app)\<rparr> \<and>
          state ua = nextState a \<and> state ua \<noteq> state app \<and>
          out = Sent (Response 200 (Json_application i ua)) \<and>
          applications st' = (applications st)(i \<mapsto> ua) \<and>
          ev = \<lparr>applicationId = i, action = action_name a, actorId = userId usr,
                 at = dbNow e, meta = request_data r\<rparr> \<and>
          events st' = events st @ [ev] \<and>
          applicationId ev = i \<and> action ev = action_name a \<and> actorId ev = userId usr \<and>
          companies st' = companies st"
      by blast
    with ok none show ?thesis
      by simp
  qed
qed

text \<open>The rejection of the submitted sample application, once with a working store and
  once with the insertion of the event failing.\<close>

theorem transition_atomic_witness:
  "transition_request (POST_reject ''a1'' None) = Some (''a1'', reject) \<and>
   succeeded (fst (handle (quiet 3 ''a3'') (Some national) (POST_reject ''a1'' None) store_submitted)) \<and>
   map_option state (applications (snd (handle (quiet 3 ''a3'') (Some national)
      (POST_reject ''a1'' None) store_submitted)) ''a1'') = Some REJECTED \<and>
   length (events (snd (handle (quiet 3 ''a3'') (Some national) (POST_reject ''a1'' None) store_submitted))) =
     Suc (length (events store_submitted)) \<and>
   \<not> succeeded (fst (handle ((quiet 3 ''a3'')\<lparr>throws := (\<lambda>_. None)(CreateEvent := Some ''connection lost'')\<rparr>)
                        (Some national) (POST_reject ''a1'' None) store_submitted)) \<and>
   snd (handle ((quiet 3 ''a3'')\<lparr>throws := (\<lambda>_. None)(CreateEvent := Some ''connection lost'')\<rparr>)
          (Some national) (POST_reject ''a1'' None) store_submitted) = store_submitted"
  using transition_atomic [where r = "POST_reject ''a1'' None" and i = "''a1''" and a = reject
      and e = "quiet 3 ''a3''" and u = "Some national" and st = store_submitted
      and out = "fst (handle (quiet 3 ''a3'') (Some national) (POST_reject ''a1'' None) store_submitted)"
      and st' = "snd (handle (quiet 3 ''a3'') (Some national) (POST_reject ''a1'' None) store_submitted)"]
    transition_atomic [where r = "POST_reject ''a1'' None" and i = "''a1''" and a = reject
      and e = "(quiet 3 ''a3'')\<lparr>throws := (\<lambda>_. None)(CreateEvent := Some ''connection lost'')\<rparr>"
      and u = "Some national" and st = store_submitted
      and out = "fst (handle ((quiet 3 ''a3'')\<lparr>throws := (\<lambda>_. None)(CreateEvent := Some ''connection lost'')\<rparr>) (Some national) (POST_reject ''a1'' None) store_submitted)"
      and st' = "snd (handle ((quiet 3 ''a3'')\<lparr>throws := (\<lambda>_. None)(CreateEvent := Some ''connection lost'')\<rparr>) (Some national) (POST_reject ''a1'' None) store_submitted)"]
  by (simp add: store_submitted_eq eval_defs national_def person_def quiet_def
        row_submitted_def row_created_def)

subsection \<open>C3\<close>

text \<open>
  C3, as stated, fails: the routes compare the role only. A regional secretary of region
  \<open>r2\<close> asks for information on, approves, or rejects the submitted sample application
  of region \<open>r1\<close>, and each request is answered 200.
\<close>

theorem region_scope_counterexample:
  "role secretary_r2 = REGIONAL_SECRETARIAT \<and> userRegionId secretary_r2 = Some ''r2'' \<and>
   map_option regionId (applications store_submitted ''a1'') = Some ''r1'' \<and>
   map_option state (applications store_submitted ''a1'') = Some SUBMITTED \<and>
   status_of (fst (handle (quiet 3 ''a3'') (Some secretary_r2) (POST_request_info ''a1'' None)
     store_submitted)) = Some 200 \<and>
   status_of (fst (handle (quiet 3 ''a3'') (Some secretary_r2) (POST_region_approve ''a1'')
     store_submitted)) = Some 200 \<and>
   status_of (fst (handle (quiet 3 ''a3'') (Some secretary_r2) (POST_reject ''a1'' None)
     store_submitted)) = Some 200"
  by (simp add: store_submitted_eq eval_defs secretary_r2_def person_def quiet_def
        row_submitted_def row_created_def)

text \<open>
  C3, amended. For an actor with role regional-secretariat, the routes
  \<^verbatim>\<open>request-info\<close>, \<^verbatim>\<open>region-approve\<close> and \<^verbatim>\<open>reject\<close> do not look at the
  actor's region: the answer and the resulting store are the same whatever region the
  actor is affiliated with, and when the action is legal for the application's state
  and the store does not fail, the request succeeds.
\<close>

theorem region_not_compared:
  assumes "role usr = REGIONAL_SECRETARIAT" and "transition_request r = Some (i, a)"
    and "a = request_info \<or> a = region_approve \<or> a = reject"
    and "applications st i = Some app"
  shows "handle e (Some (usr\<lparr>userRegionId := rg\<rparr>)) r st = handle e (Some usr) r st \<and>
         (can (state app) a \<and> (\<forall>op. throws e op = None)
            \<longrightarrow> succeeded (fst (handle e (Some usr) r st)))"
proof (intro conjI impI)
  show "handle e (Some (usr\<lparr>userRegionId := rg\<rparr>)) r st = handle e (Some usr) r st"
    by (rule handle_ignores_region)
next
  assume h: "can (state app) a \<and> (\<forall>op. throws e op = None)"
  from assms(1,2,3) have "role usr \<in> set (route_roles r)"
    by (cases r) auto
  from handle_transition_success [OF assms(2) this assms(4)] h
  show "succeeded (fst (handle e (Some usr) r st))"
    by simp
qed

text \<open>A rejection of the sample application of region \<open>r1\<close> by the secretary of
  region \<open>r2\<close>.\<close>

theorem region_not_compared_witness:
  "role secretary_r2 = REGIONAL_SECRETARIAT \<and>
   transition_request (POST_reject ''a1'' None) = Some (''a1'', reject) \<and>
   applications store_submitted ''a1'' = Some row_submitted \<and>
   can (state row_submitted) reject \<and> (\<forall>op. throws (quiet 3 ''a3'') op = None) \<and>
   userRegionId secretary_r2 \<noteq> Some (regionId row_submitted) \<and>
   succeeded (fst (handle (quiet 3 ''a3'') (Some secretary_r2) (POST_reject ''a1'' None)
     store_submitted)) \<and>
   handle (quiet 3 ''a3'') (Some (secretary_r2\<lparr>userRegionId := Some ''r1''\<rparr>))
      (POST_reject ''a1'' None) store_submitted =
     handle (quiet 3 ''a3'') (Some secretary_r2) (POST_reject ''a1'' None) store_submitted"
proof -
  have h1: "role secretary_r2 = REGIONAL_SECRETARIAT"
    and h1': "userRegionId secretary_r2 \<noteq> Some (regionId row_submitted)"
    by (simp_all add: secretary_r2_def person_def row_submitted_def row_created_def draft_row_def)
  have h2: "transition_request (POST_reject ''a1'' None) = Some (''a1'', reject)"
    by simp
  have h3: "reject = request_info \<or> reject = region_approve \<or> reject = reject"
    by simp
  have h4: "applications store_submitted ''a1'' = Some row_submitted"
    by (simp add: store_submitted_eq)
  have h5: "can (state row_submitted) reject"
    by (simp add: row_submitted_def can_def)
  have h6: "\<forall>op. throws (quiet 3 ''a3'') op = None"
    by (simp add: quiet_throws)
  from region_not_compared [OF h1 h2 h3 h4, of "quiet 3 ''a3''" "Some ''r1''"] h1 h1' h2 h4 h5 h6
  show ?thesis
    by simp
qed

subsection \<open>C4\<close>

text \<open>
  C4, as stated, fails: \<^verbatim>\<open>submittedAt\<close> is written more than once. The sample
  application is submitted at time 2, asked for more information, and submitted again
  at time 4; the second submission overwrites the timestamp of the first.
\<close>

theorem resubmission_counterexample:
  "store_resubmitted =
     run [(quiet 3 ''a3'', Some secretary_r1, POST_request_info ''a1'' (Some ''more documents'')),
          (quiet 4 ''a4'', Some owner, POST_submit ''a1'')] store_submitted \<and>
   map_option submittedAt (applications store_submitted ''a1'') = Some (Some 2) \<and>
   map_option submittedAt (applications store_resubmitted ''a1'') = Some (Some 4)"
proof (intro conjI)
  show "store_resubmitted =
     run [(quiet 3 ''a3'', Some secretary_r1, POST_request_info ''a1'' (Some ''more documents'')),
          (quiet 4 ''a4'', Some owner, POST_submit ''a1'')] store_submitted"
    by (simp add: store_resubmitted_def trace_resubmitted_def trace_asked_def run_append
          store_submitted_def)
  show "map_option submittedAt (applications store_submitted ''a1'') = Some (Some 2)"
    by (simp add: store_submitted_eq row_submitted_def)
  show "map_option submittedAt (applications store_resubmitted ''a1'') = Some (Some 4)"
    by (simp add: applications_resubmitted)
qed

text \<open>
  C4, amended. The submit handler writes \<^verbatim>\<open>submittedAt: new Date()\<close> with no
  condition: every successful submit, the first one and every later one, sets
  \<^verbatim>\<open>submittedAt\<close> to the time of that request; a request with another action, and a
  request that does not succeed, leave it as it was.
\<close>

theorem submittedAt_written_by_submit:
  assumes "transition_request r = Some (i, a)" and "handle e u r st = (out, st')"
    and "applications st i = Some app"
  shows "map_option submittedAt (applications st' i) =
           Some (if succeeded out \<and> a = submit then Some (now e) else submittedAt app)"
  using handle_transition_row [OF assms]
  by (simp add: written_row_def)


text \<open>The first submission of the sample draft.\<close>

theorem submittedAt_written_by_submit_witness:
  "transition_request (POST_submit ''a1'') = Some (''a1'', submit) \<and>
   applications store_created ''a1'' = Some row_created \<and>
   submittedAt row_created = None \<and>
   succeeded (fst (handle (quiet 2 ''a2'') (Some owner) (POST_submit ''a1'') store_created)) \<and>
   map_option submittedAt
     (applications (snd (handle (quiet 2 ''a2'') (Some owner) (POST_submit ''a1'') store_created))
        ''a1'') = Some (Some 2)"
proof -
  have h1: "transition_request (POST_submit ''a1'') = Some (''a1'', submit)"
    by simp
  have h2: "handle (quiet 2 ''a2'') (Some owner) (POST_submit ''a1'') store_created =
              (fst (handle (quiet 2 ''a2'') (Some owner) (POST_submit ''a1'') store_created),
               snd (handle (quiet 2 ''a2'') (Some owner) (POST_submit ''a1'') store_created))"
    by simp
  have h3: "applications store_created ''a1'' = Some row_created"
    by (simp add: store_created_eq)
  have h4: "succeeded (fst (handle (quiet 2 ''a2'') (Some owner) (POST_submit ''a1'') store_created))"
    by (simp add: store_created_eq eval_defs owner_def person_def quiet_def row_created_def)
  have h5: "submittedAt row_created = None" "now (quiet 2 ''a2'') = 2"
    by (simp_all add: row_created_def draft_row_def quiet_def)
  from submittedAt_written_by_submit [OF h1 h2 h3] h1 h3 h4 h5 show ?thesis
    by simp
qed

subsection \<open>C5\<close>



subsection \<open>C6\<close>




subsection \<open>C7\<close>

text \<open>
  C7. The submit route compares the role only and never reads the table of companies.
  User \<open>u2\<close>, a company representative, submits the draft of company \<open>c1\<close>, which user
  \<open>u1\<close> owns: the request is answered 200 and the application is submitted. The route
  \<^verbatim>\<open>GET /:id\<close> of the same file answers the same user, for the same application, 403.
\<close>

theorem submit_ignores_ownership:
  "role stranger = COMPANY_REP \<and> userId stranger = ''u2'' \<and>
   map_option companyId (applications store_created ''a1'') = Some ''c1'' \<and>
   companies store_created ''c1'' = Some (Some ''u1'') \<and>
   status_of (fst (handle (quiet 2 ''a2'') (Some stranger) (POST_submit ''a1'') store_created))
     = Some 200 \<and>
   map_option state
     (applications (snd (handle (quiet 2 ''a2'') (Some stranger) (POST_submit ''a1'')
        store_created)) ''a1'') = Some SUBMITTED \<and>
   status_of (fst (handle (quiet 2 ''a2'') (Some stranger) (GET_by_id ''a1'') store_created))
     = Some 403"
  by (simp add: store_created_eq eval_defs stranger_def person_def quiet_def
        row_created_def sample_companies_def route_get_by_id_def findUnique_def
        find_owned_company_def)

subsection \<open>C8\<close>

text \<open>
  C8. For an application id that is not in the store, the submit route answers 404, and
  the four routes built on \<^verbatim>\<open>transition\<close> answer 409 with the message
  \<^verbatim>\<open>Not found\<close>: their \<^verbatim>\<open>catch\<close> turns every thrown error into status 409.
\<close>

theorem missing_application_status:
  "applications store_created ''zz'' = None \<and> role admin = ADMIN \<and>
   fst (handle (quiet 2 ''a2'') (Some admin) (POST_submit ''zz'') store_created) =
     Sent (Response 404 (Json_message ''Not found'')) \<and>
   fst (handle (quiet 2 ''a2'') (Some admin) (POST_request_info ''zz'' None) store_created) =
     Sent (Response 409 (Json_message ''Not found'')) \<and>
   fst (handle (quiet 2 ''a2'') (Some admin) (POST_region_approve ''zz'') store_created) =
     Sent (Response 409 (Json_message ''Not found'')) \<and>
   fst (handle (quiet 2 ''a2'') (Some admin) (POST_national_approve ''zz'') store_created) =
     Sent (Response 409 (Json_message ''Not found'')) \<and>
   fst (handle (quiet 2 ''a2'') (Some admin) (POST_reject ''zz'' None) store_created) =
     Sent (Response 409 (Json_message ''Not found''))"
  by (simp add: store_created_eq eval_defs admin_def person_def quiet_def)

subsection \<open>C9\<close>

text \<open>
  C9, as stated, fails twice. When the two calls of the claim's own example run one
  after the other, \<^verbatim>\<open>region_approve\<close> moves the application to \<open>NATIONAL_REVIEW\<close>,
  where \<^verbatim>\<open>reject\<close> is still legal: both succeed. And two submit calls on the same draft
  both succeed when both have read the draft before either writes, whatever the store
  does for transactions, because the submit handler checks the table before its
  transaction begins: the application is submitted twice and two events are appended.
\<close>

theorem both_succeed_counterexample:
  "map_option state (applications store_submitted ''a1'') = Some SUBMITTED \<and>
   can SUBMITTED region_approve \<and> can SUBMITTED reject \<and>
   succeeded (fst (handle (quiet 3 ''a3'') (Some secretary_r1) (POST_region_approve ''a1'')
     store_submitted)) \<and>
   succeeded (fst (handle (quiet 4 ''a4'') (Some national) (POST_reject ''a1'' None)
     (snd (handle (quiet 3 ''a3'') (Some secretary_r1) (POST_region_approve ''a1'')
        store_submitted)))) \<and>
   map_option state (applications store_created ''a1'') = Some DRAFT \<and>
   can DRAFT submit \<and>
   fst (run_schedule True [True, False, True, False]
          (quiet 2 ''a2'', Some owner, POST_submit ''a1'')
          (quiet 3 ''a3'', Some admin, POST_submit ''a1'') (Start, Start, store_created)) =
     Done (Sent (Response 200 (Json_application ''a1''
       (row_created\<lparr>state := SUBMITTED, submittedAt := Some 2\<rparr>)))) \<and>
   fst (snd (run_schedule True [True, False, True, False]
          (quiet 2 ''a2'', Some owner, POST_submit ''a1'')
          (quiet 3 ''a3'', Some admin, POST_submit ''a1'') (Start, Start, store_created))) =
     Done (Sent (Response 200 (Json_application ''a1''
       (row_created\<lparr>state := SUBMITTED, submittedAt := Some 3\<rparr>)))) \<and>
   length (events (snd (snd (run_schedule True [True, False, True, False]
          (quiet 2 ''a2'', Some owner, POST_submit ''a1'')
          (quiet 3 ''a3'', Some admin, POST_submit ''a1'') (Start, Start, store_created))))) = 2"
  by (simp add: store_submitted_eq store_created_eq eval_defs secretary_r1_def national_def
        owner_def admin_def person_def quiet_def row_submitted_def row_created_def
        step_call_def submit_phase_def submit_read_def submit_write_def submit_body_def
        transaction_def findUnique_def update_application_def create_event_def)

text \<open>
  C9, amended. Two concurrent calls of routes built on \<^verbatim>\<open>transition\<close> against the
  same application, both legal from its starting state, on a store whose calls do not
  throw. Each call makes at most two steps, so the three schedules below, and their
  mirror images, are all the ways the steps of the two calls can fall. The call that
  moves first succeeds. When the store runs each transaction as one isolated unit, or
  the calls run one after the other, the second call is checked against the state the
  first has written: it is answered \<^verbatim>\<open>Invalid transition\<close> and appends nothing,
  except that a \<^verbatim>\<open>reject\<close> after a \<^verbatim>\<open>region_approve\<close> succeeds too and leaves the
  application \<open>REJECTED\<close>. When the store lets the write of one transaction fall between
  the read and the write of the other, and the steps do so, both calls succeed, two
  events are appended, and the state is the next state of the call that wrote last.
  The submit route is left out of this statement: its check comes before its
  transaction, as the second half of the counterexample shows.
\<close>

theorem two_concurrent_transitions:
  assumes "transition_request r1 = Some (i, a1)" and "transition_request r2 = Some (i, a2)"
    and "role usr1 \<in> set (route_roles r1)" and "role usr2 \<in> set (route_roles r2)"
    and "applications st i = Some app"
    and "can (state app) a1" and "can (state app) a2"
    and "\<forall>op. throws e1 op = None" and "\<forall>op. throws e2 op = None"
    and "sch = [True, True, False, False] \<or> sch = [True, False, True, False] \<or>
         sch = [True, False, False, True]"
    and "a1 \<noteq> submit"
  shows "\<exists>out1 out2 st'.
           run_schedule isolated sch (e1, Some usr1, r1) (e2, Some usr2, r2) (Start, Start, st) =
             (Done out1, Done out2, st') \<and>
           succeeded out1 \<and>
           (if sch \<noteq> [True, True, False, False] \<and> \<not> isolated
            then succeeded out2 \<and> length (events st') = length (events st) + 2 \<and>
                 map_option state (applications st' i) =
                   Some (nextState (if sch = [True, False, False, True] then a1 else a2))
            else if a1 = region_approve \<and> a2 = reject
            then succeeded out2 \<and> length (events st') = length (events st) + 2 \<and>
                 map_option state (applications st' i) = Some REJECTED
            else out2 = Sent (Response 409 (Json_message ''Invalid transition'')) \<and>
                 length (events st') = length (events st) + 1 \<and>
                 map_option state (applications st' i) = Some (nextState a1))"
  using two_calls_schedules [OF assms(1-10), of isolated] assms(11)
  by simp

text \<open>A request for information and a rejection of the submitted sample application whose
  steps alternate, on a store that isolates transactions and on one that does not.\<close>

theorem two_concurrent_transitions_witness:
  "transition_request (POST_request_info ''a1'' None) = Some (''a1'', request_info) \<and>
   transition_request (POST_reject ''a1'' None) = Some (''a1'', reject) \<and>
   role secretary_r1 \<in> set (route_roles (POST_request_info ''a1'' None)) \<and>
   role national \<in> set (route_roles (POST_reject ''a1'' None)) \<and>
   applications store_submitted ''a1'' = Some row_submitted \<and>
   can (state row_submitted) request_info \<and> can (state row_submitted) reject \<and>
   (\<forall>op. throws (quiet 3 ''a3'') op = None) \<and> (\<forall>op. throws (quiet 4 ''a4'') op = None) \<and>
   (\<exists>out1 st'.
      run_schedule True [True, False, True, False]
        (quiet 3 ''a3'', Some secretary_r1, POST_request_info ''a1'' None)
        (quiet 4 ''a4'', Some national, POST_reject ''a1'' None) (Start, Start, store_submitted) =
        (Done out1, Done (Sent (Response 409 (Json_message ''Invalid transition''))), st') \<and>
      succeeded out1 \<and>
      map_option state (applications st' ''a1'') = Some REQUESTED_CHANGES) \<and>
   (\<exists>out1 out2 st'.
      run_schedule False [True, False, True, False]
        (quiet 3 ''a3'', Some secretary_r1, POST_request_info ''a1'' None)
        (quiet 4 ''a4'', Some national, POST_reject ''a1'' None) (Start, Start, store_submitted) =
        (Done out1, Done out2, st') \<and>
      succeeded out1 \<and> succeeded out2 \<and>
      length (events st') = length (events store_submitted) + 2 \<and>
      map_option state (applications st' ''a1'') = Some REJECTED)"
proof -
  have h1: "transition_request (POST_request_info ''a1'' None) = Some (''a1'', request_info)"
    and h2: "transition_request (POST_reject ''a1'' None) = Some (''a1'', reject)"
    by simp_all
  have h3: "role secretary_r1 \<in> set (route_roles (POST_request_info ''a1'' None))"
    and h4: "role national \<in> set (route_roles (POST_reject ''a1'' None))"
    by (simp_all add: secretary_r1_def national_def person_def)
  have h5: "applications store_submitted ''a1'' = Some row_submitted"
    by (simp add: store_submitted_eq)
  have h6: "can (state row_submitted) request_info" and h7: "can (state row_submitted) reject"
    by (simp_all add: row_submitted_def can_def)
  have h8: "\<forall>op. throws (quiet 3 ''a3'') op = None" and h9: "\<forall>op. throws (quiet 4 ''a4'') op = None"
    by (simp_all add: quiet_throws)
  have h10: "[True, False, True, False] = [True, True, False, False] \<or>
             [True, False, True, False] = [True, False, True, False] \<or>
             [True, False, True, False] = [True, False, False, True]"
    by simp
  have h11: "request_info \<noteq> submit"
    by simp
  from two_concurrent_transitions [OF h1 h2 h3 h4 h5 h6 h7 h8 h9 h10 h11, of True]
    two_concurrent_transitions [OF h1 h2 h3 h4 h5 h6 h7 h8 h9 h10 h11, of False]
    h1 h2 h3 h4 h5 h6 h7 h8 h9
  show ?thesis
    by auto
qed

subsection \<open>C10\<close>

text \<open>
  C10. The next state of every action is one of \<open>SUBMITTED\<close>, \<open>REQUESTED_CHANGES\<close>,
  \<open>NATIONAL_REVIEW\<close>, \<open>APPROVED\<close>, \<open>REJECTED\<close>; a row that the create route adds
  is in state \<open>DRAFT\<close>. A request never yields the state \<open>REGION_REVIEW\<close>: a row found
  in that state after a request was there, unchanged, before it; and a row found in
  \<open>DRAFT\<close> after a request was there before or has just been created. Hence no
  application in a store the routes can produce is in \<open>REGION_REVIEW\<close>, and an
  application that has left \<open>DRAFT\<close> stays out of it through every later sequence of
  requests.
\<close>

theorem no_region_review_no_return_to_draft:
  "nextState a \<in> {SUBMITTED, REQUESTED_CHANGES, NATIONAL_REVIEW, APPROVED, REJECTED} \<and>
   (handle e1 u1 (POST_create c rg f) st1 = (out1, st1') \<and> applications st1' i1 \<noteq> applications st1 i1
      \<longrightarrow> applications st1 i1 = None \<and> map_option state (applications st1' i1) = Some DRAFT) \<and>
   (handle e2 u2 r2 st2 = (out2, st2') \<and> applications st2' i2 = Some app2 \<and>
    (state app2 = REGION_REVIEW \<or> state app2 = DRAFT)
      \<longrightarrow> applications st2 i2 = Some app2 \<or>
          (applications st2 i2 = None \<and> state app2 = DRAFT \<and> (\<exists>c rg f. r2 = POST_create c rg f))) \<and>
   (applications (run tr3 (initial cs)) i3 = Some app3 \<longrightarrow> state app3 \<noteq> REGION_REVIEW) \<and>
   (applications st4 i4 = Some app4 \<and> state app4 \<noteq> DRAFT
      \<longrightarrow> (\<exists>app'. applications (run tr4 st4) i4 = Some app' \<and> state app' \<noteq> DRAFT))"
proof (intro conjI impI)
  show "nextState a \<in> {SUBMITTED, REQUESTED_CHANGES, NATIONAL_REVIEW, APPROVED, REJECTED}"
    by (cases a) simp_all
next
  assume h: "handle e1 u1 (POST_create c rg f) st1 = (out1, st1') \<and>
             applications st1' i1 \<noteq> applications st1 i1"
  with handle_row [of e1 u1 "POST_create c rg f" st1 out1 st1' i1]
  show "applications st1 i1 = None" by auto
  from h handle_row [of e1 u1 "POST_create c rg f" st1 out1 st1' i1]
  show "map_option state (applications st1' i1) = Some DRAFT"
    by (auto simp: draft_row_def)
next
  assume h: "handle e2 u2 r2 st2 = (out2, st2') \<and> applications st2' i2 = Some app2 \<and>
             (state app2 = REGION_REVIEW \<or> state app2 = DRAFT)"
  have w: "state (written_row e a d row) \<noteq> REGION_REVIEW \<and> state (written_row e a d row) \<noteq> DRAFT"
    for e a d row
    by (cases a) (simp_all add: written_row_def)
  have d: "state (draft_row e c usr rg f) = DRAFT" for e c usr rg f
    by (simp add: draft_row_def)
  from h have step: "handle e2 u2 r2 st2 = (out2, st2')" by simp
  from handle_row [OF step, of i2] h w d
  show "applications st2 i2 = Some app2 \<or>
        (applications st2 i2 = None \<and> state app2 = DRAFT \<and> (\<exists>c rg f. r2 = POST_create c rg f))"
    by (elim disjE exE conjE) auto
next
  assume "applications (run tr3 (initial cs)) i3 = Some app3"
  then show "state app3 \<noteq> REGION_REVIEW" by (rule no_region_review_inv)
next
  assume "applications st4 i4 = Some app4 \<and> state app4 \<noteq> DRAFT"
  then show "\<exists>app'. applications (run tr4 st4) i4 = Some app' \<and> state app' \<noteq> DRAFT"
    using run_keeps_left_draft by blast
qed


text \<open>The creation of the sample draft, a regional approval refused on it, the approved
  application, and a request for information followed by a second submission.\<close>

theorem no_region_review_no_return_to_draft_witness:
  "applications (snd (handle (quiet 1 ''a1'') (Some owner) (POST_create ''c1'' ''r1'' ''{}'')
                   (initial sample_companies))) ''a1''
     \<noteq> applications (initial sample_companies) ''a1'' \<and>
   map_option state (applications (snd (handle (quiet 1 ''a1'') (Some owner)
       (POST_create ''c1'' ''r1'' ''{}'') (initial sample_companies))) ''a1'') = Some DRAFT \<and>
   applications (snd (handle (quiet 2 ''a2'') (Some secretary_r1) (POST_region_approve ''a1'')
                   store_created)) ''a1'' = Some row_created \<and>
   state row_created = DRAFT \<and>
   applications store_created ''a1'' = Some row_created \<and>
   applications (run trace_approved (initial sample_companies)) ''a1'' = Some row_approved \<and>
   state row_approved \<noteq> REGION_REVIEW \<and>
   applications store_submitted ''a1'' = Some row_submitted \<and>
   state row_submitted \<noteq> DRAFT \<and>
   (\<exists>app'. applications (run [(quiet 3 ''a3'', Some secretary_r1, POST_request_info ''a1'' None),
                               (quiet 4 ''a4'', Some owner, POST_submit ''a1'')] store_submitted) ''a1''
             = Some app' \<and> state app' \<noteq> DRAFT)"
proof -
  have h1: "applications (snd (handle (quiet 1 ''a1'') (Some owner) (POST_create ''c1'' ''r1'' ''{}'')
                   (initial sample_companies))) ''a1''
     \<noteq> applications (initial sample_companies) ''a1''"
    by (simp add: sample_defs eval_defs)
  have h2: "applications (snd (handle (quiet 2 ''a2'') (Some secretary_r1) (POST_region_approve ''a1'')
                   store_created)) ''a1'' = Some row_created"
    by (simp add: store_created_eq eval_defs secretary_r1_def person_def quiet_def
          row_created_def)
  have h3: "state row_created = DRAFT"
    by (simp add: row_created_def draft_row_def)
  have h4: "applications (run trace_approved (initial sample_companies)) ''a1'' = Some row_approved"
    using applications_approved by (simp add: store_approved_def)
  have h5: "applications store_submitted ''a1'' = Some row_submitted"
    by (simp add: store_submitted_eq)
  have h6: "state row_submitted \<noteq> DRAFT"
    by (simp add: row_submitted_def)
  from no_region_review_no_return_to_draft
    [where a = region_approve
       and ?e1.0 = "quiet 1 ''a1''" and ?u1.0 = "Some owner" and c = "''c1''" and rg = "''r1''"
       and f = "''{}''" and ?st1.0 = "initial sample_companies" and ?i1.0 = "''a1''"
       and ?out1.0 = "fst (handle (quiet 1 ''a1'') (Some owner) (POST_create ''c1'' ''r1'' ''{}'')
                        (initial sample_companies))"
       and ?st1' = "snd (handle (quiet 1 ''a1'') (Some owner) (POST_create ''c1'' ''r1'' ''{}'')
                        (initial sample_companies))"
       and ?e2.0 = "quiet 2 ''a2''" and ?u2.0 = "Some secretary_r1"
       and ?r2.0 = "POST_region_approve ''a1''" and ?st2.0 = store_created and ?i2.0 = "''a1''"
       and ?app2.0 = row_created
       and ?out2.0 = "fst (handle (quiet 2 ''a2'') (Some secretary_r1) (POST_region_approve ''a1'')
                        store_created)"
       and ?st2' = "snd (handle (quiet 2 ''a2'') (Some secretary_r1) (POST_region_approve ''a1'')
                        store_created)"
       and ?tr3.0 = trace_approved and cs = sample_companies and ?i3.0 = "''a1''"
       and ?app3.0 = row_approved
       and ?st4.0 = store_submitted and ?i4.0 = "''a1''" and ?app4.0 = row_submitted
       and ?tr4.0 = "[(quiet 3 ''a3'', Some secretary_r1, POST_request_info ''a1'' None),
                      (quiet 4 ''a4'', Some owner, POST_submit ''a1'')]"]
    h1 h2 h3 h4 h5 h6
  show ?thesis
    by simp
qed

end
